theory Spec2Isabelle
  imports Complex_Main
begin

section \<open>Python values\<close>

text \<open>
  A Python \<open>str\<close> is a sequence of Unicode code points, so \<open>len\<close> counts code points.
  It is modelled as a list of naturals; \<open>ascii\<close> embeds an ASCII literal of the source.
  \<open>bytes\<close> are lists of byte values.
\<close>

type_synonym pystr = "nat list"
type_synonym pybytes = "nat list"

definition ascii :: "string \<Rightarrow> pystr" where
  "ascii s = map of_char s"

definition startswith :: "pystr \<Rightarrow> pystr \<Rightarrow> bool" where
  "startswith s p = (take (length p) s = p)"

text \<open>
  The exceptions the source raises or catches. Messages are not modelled, only the
  class, except for the HTTP error of the server, whose status and detail a claim names.
\<close>

datatype py_exn =
    ValueError
  | TypeError
  | IndexError
  | KeyError
  | AttributeError
  | JSONDecodeError
  | RecursionError
  | CookieExpiredError
  | ImageUploadError
  | ConnectTimeout
  | NetworkError
  | HTTPStatusError
  | PyException

text \<open>
  Values decoded from JSON, which is also what the untyped attributes of the client hold.
  A float is a rational or one of the three special values \<open>json.loads\<close> accepts.
  An object is the list of its items in order.
\<close>

datatype pyfloat = Finite rat | PosInf | NegInf | NaN

datatype json =
    JNull
  | JBool bool
  | JInt int
  | JFloat pyfloat
  | JStr pystr
  | JArr "json list"
  | JObj "(pystr \<times> json) list"

text \<open>Truth value of a Python object, as \<open>if x\<close>, \<open>not x\<close> and \<open>x or y\<close> test it.\<close>

fun truthy :: "json \<Rightarrow> bool" where
  "truthy JNull = False"
| "truthy (JBool b) = b"
| "truthy (JInt i) = (i \<noteq> 0)"
| "truthy (JFloat f) = (f \<noteq> Finite 0)"
| "truthy (JStr s) = (s \<noteq> [])"
| "truthy (JArr xs) = (xs \<noteq> [])"
| "truthy (JObj kvs) = (kvs \<noteq> [])"

definition py_or :: "json \<Rightarrow> json \<Rightarrow> json" where
  "py_or a b = (if truthy a then a else b)"

text \<open>\<open>len(x)\<close>: a TypeError for None, booleans and numbers.\<close>

fun py_len :: "json \<Rightarrow> py_exn + nat" where
  "py_len (JStr s) = Inr (length s)"
| "py_len (JArr xs) = Inr (length xs)"
| "py_len (JObj kvs) = Inr (length kvs)"
| "py_len _ = Inl TypeError"

text \<open>
  \<open>x[i]\<close> for a literal index \<open>i \<ge> 0\<close>: an element of a list, a one-character string
  of a string, IndexError out of range, KeyError on a dict (its keys are strings),
  TypeError otherwise.
\<close>

fun py_getitem :: "json \<Rightarrow> nat \<Rightarrow> py_exn + json" where
  "py_getitem (JArr xs) i = (if i < length xs then Inr (xs ! i) else Inl IndexError)"
| "py_getitem (JStr s) i = (if i < length s then Inr (JStr [s ! i]) else Inl IndexError)"
| "py_getitem (JObj kvs) i = Inl KeyError"
| "py_getitem _ i = Inl TypeError"

text \<open>\<open>x[key]\<close> for a string key: the value of a dict, KeyError when missing, TypeError otherwise.\<close>

fun py_getkey :: "json \<Rightarrow> pystr \<Rightarrow> py_exn + json" where
  "py_getkey (JObj kvs) k = (case map_of kvs k of Some v \<Rightarrow> Inr v | None \<Rightarrow> Inl KeyError)"
| "py_getkey _ k = Inl TypeError"

text \<open>\<open>x.get(key, default)\<close>: only a dict has the method.\<close>

fun py_get :: "json \<Rightarrow> pystr \<Rightarrow> json \<Rightarrow> py_exn + json" where
  "py_get (JObj kvs) k d = Inr (case map_of kvs k of Some v \<Rightarrow> v | None \<Rightarrow> d)"
| "py_get _ k d = Inl AttributeError"

text \<open>\<open>key in x\<close> for a dict.\<close>

definition has_key :: "(pystr \<times> json) list \<Rightarrow> pystr \<Rightarrow> bool" where
  "has_key kvs k = (map_of kvs k \<noteq> None)"

text \<open>
  \<open>for item in x\<close>: the elements of a list, the characters of a string, the keys of a
  dict; a TypeError for anything else.
\<close>

fun py_iter :: "json \<Rightarrow> py_exn + json list" where
  "py_iter (JArr xs) = Inr xs"
| "py_iter (JStr s) = Inr (map (\<lambda>ch. JStr [ch]) s)"
| "py_iter (JObj kvs) = Inr (map (\<lambda>kv. JStr (fst kv)) kvs)"
| "py_iter _ = Inl TypeError"

text \<open>\<open>xs[i:]\<close> for any integer \<open>i\<close>: a negative \<open>i\<close> counts from the end, and is clipped at the start.\<close>

definition py_slice_from :: "int \<Rightarrow> 'a list \<Rightarrow> 'a list" where
  "py_slice_from i xs =
     (if i < 0 then drop (nat (int (length xs) + i)) xs else drop (nat i) xs)"

text \<open>\<open>s.split("\n")\<close>.\<close>

fun split_lines :: "pystr \<Rightarrow> pystr list" where
  "split_lines [] = [[]]"
| "split_lines (ch # s) =
     (if ch = 10 then [] # split_lines s
      else (case split_lines s of [] \<Rightarrow> [[ch]] | l # ls \<Rightarrow> (ch # l) # ls))"

text \<open>\<open>needle in s\<close> for strings.\<close>

fun contains :: "pystr \<Rightarrow> pystr \<Rightarrow> bool" where
  "contains [] needle = (needle = [])"
| "contains (ch # s) needle = (startswith (ch # s) needle \<or> contains s needle)"

section \<open>The libraries and the world outside\<close>

text \<open>
  What the source takes from the standard library and from third-party packages is not
  part of the repository; it is a parameter of the model. \<open>pylib\<close> collects the pure
  functions: the JSON codec, \<open>str()\<close>, the Unicode tables behind \<open>str.strip\<close> and
  \<open>str.isdigit\<close>, the three regular expressions of the client (each as the function
  from the subject to the groups of its match), base64, and the statuses for which
  \<open>Response.raise_for_status\<close> raises. The version of the interpreter is a parameter
  too, where the source depends on it: \<open>hashable_slice\<close> says that slice objects are
  hashable, as they are from Python 3.12 on.
\<close>

record pylib =
  json_loads :: "pystr \<Rightarrow> py_exn + json"
  json_dumps :: "json \<Rightarrow> pystr"
  py_str :: "json \<Rightarrow> pystr"
  isspace :: "nat \<Rightarrow> bool"
  isdigit :: "nat \<Rightarrow> bool"
  re_data_url :: "pystr \<Rightarrow> (pystr \<times> pystr) option"
  re_cfb2h :: "pystr \<Rightarrow> pystr option"
  re_contrib_service :: "pystr \<Rightarrow> pystr option"
  b64decode :: "pystr \<Rightarrow> py_exn + pybytes"
  b64encode :: "pybytes \<Rightarrow> pystr"
  is_error_status :: "int \<Rightarrow> bool"
  hashable_slice :: bool

text \<open>\<open>str(x)\<close>: a string is its own \<open>str\<close>; the rest is the library's formatting.\<close>

definition str_of :: "pylib \<Rightarrow> json \<Rightarrow> pystr" where
  "str_of lib v = (case v of JStr s \<Rightarrow> s | _ \<Rightarrow> py_str lib v)"

definition strip :: "pylib \<Rightarrow> pystr \<Rightarrow> pystr" where
  "strip lib s = rev (dropWhile (isspace lib) (rev (dropWhile (isspace lib) s)))"

definition str_isdigit :: "pylib \<Rightarrow> pystr \<Rightarrow> bool" where
  "str_isdigit lib s = (s \<noteq> [] \<and> list_all (isdigit lib) s)"

text \<open>
  \<open>x[:n]\<close>: the first \<open>n\<close> elements of a string or a list. A dict is subscripted with
  the slice object as its key: that is a TypeError where slices cannot be hashed, and a
  KeyError where they can (the keys of a decoded object are strings). None, booleans and
  numbers cannot be subscripted: a TypeError.
\<close>

fun py_prefix :: "pylib \<Rightarrow> json \<Rightarrow> nat \<Rightarrow> py_exn + json" where
  "py_prefix lib (JStr s) n = Inr (JStr (take n s))"
| "py_prefix lib (JArr xs) n = Inr (JArr (take n xs))"
| "py_prefix lib (JObj kvs) n = Inl (if hashable_slice lib then KeyError else TypeError)"
| "py_prefix lib v n = Inl TypeError"

text \<open>
  The expression the debug messages print for an identifier,
  \<open>x[:n] if x else 'None'\<close>. Formatting the value and printing it do not fail.
\<close>

definition id_preview :: "pylib \<Rightarrow> json \<Rightarrow> nat \<Rightarrow> py_exn + json" where
  "id_preview lib v n = (if truthy v then py_prefix lib v n else Inr (JStr (ascii ''None'')))"

text \<open>
  HTTP. A request records what the client passes to \<open>httpx\<close>; a response is what the
  source reads of it. Header lookup is the library's (case-insensitive), so the headers
  of a response are their lookup function.
\<close>

datatype http_method = GET | POST

record request =
  http_method :: http_method
  url :: pystr
  params :: "(pystr \<times> pystr option) list"
  form :: "(pystr \<times> pystr option) list"
  req_headers :: "(pystr \<times> pystr) list"
  body :: "pybytes option"

record response =
  resp_status :: int
  resp_headers :: "pystr \<Rightarrow> pystr option"
  resp_text :: pystr
  resp_content :: pybytes

text \<open>
  The world: the requests issued so far, in order, and the number of values drawn from
  the sources of nondeterminism (\<open>random.randint\<close>, \<open>uuid.uuid4\<close>, \<open>time.time\<close>).
  The environment answers a request given everything sent before it (a response, or the
  exception \<open>httpx\<close> raises), and supplies the drawn values by their index.
\<close>

record world =
  trace :: "request list"
  draws :: nat

record env =
  net :: "request list \<Rightarrow> request \<Rightarrow> py_exn + response"
  randint :: "nat \<Rightarrow> int"
  uuid4 :: "nat \<Rightarrow> pystr"
  time_ms :: "nat \<Rightarrow> int"

definition send :: "env \<Rightarrow> request \<Rightarrow> world \<Rightarrow> world \<times> (py_exn + response)" where
  "send e r w = (w\<lparr>trace := trace w @ [r]\<rparr>, net e (trace w) r)"

definition draw :: "world \<Rightarrow> world" where
  "draw w = w\<lparr>draws := draws w + 1\<rparr>"

section \<open>client.py: the client and its history\<close>

datatype message = Message (role: json) (content: json)

record image =
  mime_type :: pystr
  data :: pystr

text \<open>
  The attributes of \<open>GeminiClient\<close> the claims depend on. The three identifiers are
  annotated \<open>str\<close> but are assigned whatever the decoded response or the session file
  holds, so they are JSON values here. The HTTP session (headers, cookies, proxy) is not
  modelled.
\<close>

record client =
  snlm0e :: "pystr option"
  bl :: "pystr option"
  push_id :: "pystr option"
  debug :: bool
  conversation_id :: json
  response_id :: json
  choice_id :: json
  request_count :: int
  messages :: "message list"
  max_history_messages :: int

text \<open>\<open>not s\<close> for an optional string: None or empty.\<close>

definition unset :: "pystr option \<Rightarrow> bool" where
  "unset s = (case s of None \<Rightarrow> True | Some v \<Rightarrow> v = [])"

text \<open>
  The block that bounds the history, which the source has twice, in \<open>chat\<close> and in
  \<open>_load_session_state\<close>:
  \<^verbatim>\<open>
  if len(self.messages) > self.max_history_messages:
      keep_count = self.max_history_messages
      if keep_count % 2 == 1:
          keep_count -= 1
      self.messages = self.messages[-keep_count:]
  \<close>
\<close>

definition keep_count_of :: "int \<Rightarrow> int" where
  "keep_count_of m = (if m mod 2 = 1 then m - 1 else m)"

definition limit_history :: "client \<Rightarrow> client" where
  "limit_history c =
     (if int (length (messages c)) > max_history_messages c
      then c\<lparr>messages := py_slice_from (- keep_count_of (max_history_messages c)) (messages c)\<rparr>
      else c)"

text \<open>
  \<open>_save_session_state\<close> writes the identifiers and the history to the session file
  and swallows every exception; it changes no attribute of the client. The file system
  is outside the model, so the function is the identity on the client.
\<close>

definition save_session_state :: "client \<Rightarrow> client" where
  "save_session_state c = c"

text \<open>
  \<open>_load_session_state\<close>. The session file is absent, unreadable (\<open>open\<close> raises) or
  holds a text. Every exception after the existence test resets the identifiers and the
  history; that includes the debug message at the end of the \<open>try\<close>, which with
  \<open>debug\<close> on evaluates \<open>self.conversation_id[:20] if self.conversation_id else 'None'\<close>.
\<close>

datatype session_file = NoFile | Unreadable | FileText pystr

fun load_messages :: "json list \<Rightarrow> py_exn + message list" where
  "load_messages [] = Inr []"
| "load_messages (msg # rest) =
     (case py_getkey msg (ascii ''role'') of Inl e \<Rightarrow> Inl e | Inr r \<Rightarrow>
      (case py_getkey msg (ascii ''content'') of Inl e \<Rightarrow> Inl e | Inr ct \<Rightarrow>
       (case load_messages rest of Inl e \<Rightarrow> Inl e | Inr ms \<Rightarrow> Inr (Message r ct # ms))))"

definition load_state :: "pylib \<Rightarrow> client \<Rightarrow> pystr \<Rightarrow> py_exn + client" where
  "load_state lib c txt =
     (case json_loads lib txt of Inl e \<Rightarrow> Inl e | Inr state \<Rightarrow>
      (case py_get state (ascii ''conversation_id'') (JStr []) of Inl e \<Rightarrow> Inl e | Inr cid \<Rightarrow>
      (case py_get state (ascii ''response_id'') (JStr []) of Inl e \<Rightarrow> Inl e | Inr rid \<Rightarrow>
      (case py_get state (ascii ''choice_id'') (JStr []) of Inl e \<Rightarrow> Inl e | Inr chid \<Rightarrow>
      (case py_get state (ascii ''messages'') (JArr []) of Inl e \<Rightarrow> Inl e | Inr messages_data \<Rightarrow>
      (case py_iter messages_data of Inl e \<Rightarrow> Inl e | Inr items \<Rightarrow>
      (case load_messages items of Inl e \<Rightarrow> Inl e | Inr ms \<Rightarrow>
         (let c1 = limit_history
                     (c\<lparr>conversation_id := cid, response_id := rid, choice_id := chid,
                        messages := ms\<rparr>)
          in if debug c1
             then (case id_preview lib (conversation_id c1) 20 of
                     Inl e \<Rightarrow> Inl e | Inr shown \<Rightarrow> Inr c1)
             else Inr c1))))))))"

definition load_session_state :: "pylib \<Rightarrow> session_file \<Rightarrow> client \<Rightarrow> client" where
  "load_session_state lib file c =
     (let cleared = c\<lparr>conversation_id := JStr [], response_id := JStr [],
                       choice_id := JStr [], messages := []\<rparr>
      in case file of
           NoFile \<Rightarrow> c
         | Unreadable \<Rightarrow> cleared
         | FileText txt \<Rightarrow> (case load_state lib c txt of Inl e \<Rightarrow> cleared | Inr c' \<Rightarrow> c'))"

text \<open>\<open>reset\<close>: a new conversation. Removing the session file is outside the model.\<close>

definition reset :: "client \<Rightarrow> client" where
  "reset c = c\<lparr>conversation_id := JStr [], response_id := JStr [], choice_id := JStr [],
               messages := []\<rparr>"

section \<open>server.py: the API key check\<close>

datatype http_exception = HTTPException (status_code: nat) (detail: pystr)

definition API_KEY :: pystr where
  "API_KEY = ascii ''sk-gemini''"

text \<open>
  \<^verbatim>\<open>
  def verify_api_key(authorization: str = Header(None)):
      if not API_KEY:
          return True
      if not authorization or not authorization.startswith("Bearer ") or authorization[7:] != API_KEY:
          raise HTTPException(status_code=401, detail="Invalid API key")
      return True
  \<close>
  The header is absent (\<open>None\<close>) or a string. The key is a parameter of
  \<open>verify_api_key_with\<close> so that the first branch of the source stays visible;
  \<open>verify_api_key\<close> is the function at the configured constant.
\<close>

definition verify_api_key_with :: "pystr \<Rightarrow> pystr option \<Rightarrow> http_exception + bool" where
  "verify_api_key_with key authorization =
     (if key = [] then Inr True
      else if (case authorization of
                 None \<Rightarrow> True
               | Some a \<Rightarrow> a = [] \<or> \<not> startswith a (ascii ''Bearer '') \<or> drop 7 a \<noteq> key)
      then Inl (HTTPException 401 (ascii ''Invalid API key''))
      else Inr True)"

definition verify_api_key :: "pystr option \<Rightarrow> http_exception + bool" where
  "verify_api_key authorization = verify_api_key_with API_KEY authorization"

text \<open>
  The guarded endpoints (\<open>/v1/models\<close>, \<open>/v1/chat/completions\<close> and the others) call
  \<open>verify_api_key(authorization)\<close> as their first statement; the handler's body runs
  only when the call returns.
\<close>

definition guarded :: "pystr option \<Rightarrow> 'a \<Rightarrow> http_exception + 'a" where
  "guarded authorization handler =
     (case verify_api_key authorization of Inl e \<Rightarrow> Inl e | Inr _ \<Rightarrow> Inr handler)"

section \<open>client.py: uploading an image\<close>

definition upload_url :: pystr where
  "upload_url = ascii ''https://push.clients6.google.com/upload/''"

definition browser_headers :: "(pystr \<times> pystr) list" where
  "browser_headers =
     [(ascii ''accept'', ascii ''*/*''),
      (ascii ''accept-language'', ascii ''zh-CN,zh;q=0.9,en;q=0.8''),
      (ascii ''origin'', ascii ''https://gemini.google.com''),
      (ascii ''referer'', ascii ''https://gemini.google.com/''),
      (ascii ''sec-fetch-dest'', ascii ''empty''),
      (ascii ''sec-fetch-mode'', ascii ''cors''),
      (ascii ''sec-fetch-site'', ascii ''same-site''),
      (ascii ''x-browser-channel'', ascii ''stable''),
      (ascii ''x-browser-copyright'', ascii ''Copyright 2025 Google LLC. All Rights reserved.''),
      (ascii ''x-browser-validation'', ascii ''Aj9fzfu+SaGLBY9Oqr3S7RokOtM=''),
      (ascii ''x-browser-year'', ascii ''2025''),
      (ascii ''x-client-data'',
       ascii ''CIa2yQEIpbbJAQipncoBCNvaygEIk6HLAQiFoM0BCJaMzwEIkZHPAQiSpM8BGOyFzwEYsobPAQ=='')]"

text \<open>
  \<open>_extract_image_path\<close>: the first string of the decoded response, in depth-first
  order, that starts with \<open>/contrib_service/\<close>.
\<close>

fun extract_image_path :: "json \<Rightarrow> pystr option"
  and extract_image_path_list :: "json list \<Rightarrow> pystr option"
  and extract_image_path_values :: "(pystr \<times> json) list \<Rightarrow> pystr option" where
  "extract_image_path (JStr s) =
     (if startswith s (ascii ''/contrib_service/'') then Some s else None)"
| "extract_image_path (JObj kvs) = extract_image_path_values kvs"
| "extract_image_path (JArr xs) = extract_image_path_list xs"
| "extract_image_path JNull = None"
| "extract_image_path (JBool b) = None"
| "extract_image_path (JInt i) = None"
| "extract_image_path (JFloat f) = None"
| "extract_image_path_list [] = None"
| "extract_image_path_list (x # xs) =
     (case extract_image_path x of Some r \<Rightarrow> Some r | None \<Rightarrow> extract_image_path_list xs)"
| "extract_image_path_values [] = None"
| "extract_image_path_values ((k, v) # kvs) =
     (case extract_image_path v of Some r \<Rightarrow> Some r | None \<Rightarrow> extract_image_path_values kvs)"

text \<open>The two requests of the upload, as \<open>_upload_image\<close> builds them.\<close>

definition init_request :: "pylib \<Rightarrow> pystr \<Rightarrow> pystr \<Rightarrow> pybytes \<Rightarrow> request" where
  "init_request lib pid filename image_data =
     \<lparr>http_method = POST, url = upload_url, params = [],
      form = [(ascii ''File name'', Some filename)],
      req_headers = browser_headers @
        [(ascii ''content-type'', ascii ''application/x-www-form-urlencoded;charset=utf-8''),
         (ascii ''push-id'', pid),
         (ascii ''x-goog-upload-command'', ascii ''start''),
         (ascii ''x-goog-upload-header-content-length'',
          py_str lib (JInt (int (length image_data)))),
         (ascii ''x-goog-upload-protocol'', ascii ''resumable''),
         (ascii ''x-tenant-id'', ascii ''bard-storage'')],
      body = None\<rparr>"

definition final_upload_url :: "pystr \<Rightarrow> pystr" where
  "final_upload_url upload_id =
     upload_url @ ascii ''?upload_id='' @ upload_id @ ascii ''&upload_protocol=resumable''"

definition upload_request :: "pystr \<Rightarrow> pystr \<Rightarrow> pystr \<Rightarrow> pybytes \<Rightarrow> request" where
  "upload_request pid upload_id mime image_data =
     \<lparr>http_method = POST, url = final_upload_url upload_id, params = [], form = [],
      req_headers = browser_headers @
        [(ascii ''content-type'', mime),
         (ascii ''push-id'', pid),
         (ascii ''x-goog-upload-command'', ascii ''upload, finalize''),
         (ascii ''x-goog-upload-offset'', ascii ''0''),
         (ascii ''x-tenant-id'', ascii ''bard-storage''),
         (ascii ''x-client-pctx'', ascii ''CgcSBWjK7pYx'')],
      body = Some image_data\<rparr>"

text \<open>
  What \<open>_upload_image\<close> does with the response to the data upload: the status checks,
  the path from the decoded JSON or, when the text is not JSON, from the regular
  expression, and the two checks of the path.
\<close>

definition image_path_of :: "pylib \<Rightarrow> response \<Rightarrow> py_exn + pystr" where
  "image_path_of lib upload_resp =
     (if resp_status upload_resp = 401 \<or> resp_status upload_resp = 403 then Inl CookieExpiredError
      else if resp_status upload_resp \<noteq> 200 then Inl PyException
      else
        (case (case json_loads lib (resp_text upload_resp) of
                 Inr response_json \<Rightarrow> Inr (extract_image_path response_json)
               | Inl JSONDecodeError \<Rightarrow> Inr (re_contrib_service lib (resp_text upload_resp))
               | Inl e \<Rightarrow> Inl e) of
           Inl e \<Rightarrow> Inl e
         | Inr None \<Rightarrow> Inl CookieExpiredError
         | Inr (Some image_path) \<Rightarrow>
             if image_path = [] then Inl CookieExpiredError
             else if contains image_path (ascii ''/contrib_service/'') \<and> length image_path < 40
             then Inl CookieExpiredError
             else Inr image_path))"

text \<open>
  The handlers that close the \<open>try\<close> of \<open>_upload_image\<close>: CookieExpiredError passes,
  every other exception becomes ImageUploadError.
\<close>

definition upload_handlers :: "py_exn \<Rightarrow> py_exn" where
  "upload_handlers e = (if e = CookieExpiredError then CookieExpiredError else ImageUploadError)"

text \<open>
  \<open>_upload_image(image_data, mime_type)\<close>. The check of \<open>push_id\<close> stands before the
  \<open>try\<close>. Inside: the file name (one random draw), the initialization request, the
  checks of its response, the data request, and the path.
\<close>

definition upload_image ::
  "env \<Rightarrow> pylib \<Rightarrow> client \<Rightarrow> pybytes \<Rightarrow> pystr \<Rightarrow> world \<Rightarrow> world \<times> (py_exn + pystr)" where
  "upload_image e lib c image_data mime w =
     (if unset (push_id c) then (w, Inl CookieExpiredError)
      else
        let pid = the (push_id c);
            filename = ascii ''image_'' @ py_str lib (JInt (randint e (draws w))) @ ascii ''.png'';
            w1 = draw w;
            (w2, init_result) = send e (init_request lib pid filename image_data) w1
        in (case init_result of
              Inl ex \<Rightarrow> (w2, Inl (upload_handlers ex))
            | Inr init_resp \<Rightarrow>
               (if resp_status init_resp = 401 \<or> resp_status init_resp = 403
                then (w2, Inl (upload_handlers CookieExpiredError))
                else if unset (resp_headers init_resp (ascii ''x-guploader-uploadid''))
                then (w2, Inl (upload_handlers CookieExpiredError))
                else
                  (let upload_id = the (resp_headers init_resp (ascii ''x-guploader-uploadid''));
                       (w3, upload_result) =
                          send e (upload_request pid upload_id mime image_data) w2
                   in (case upload_result of
                         Inl ex \<Rightarrow> (w3, Inl (upload_handlers ex))
                       | Inr upload_resp \<Rightarrow>
                           (case image_path_of lib upload_resp of
                              Inl ex \<Rightarrow> (w3, Inl (upload_handlers ex))
                            | Inr image_path \<Rightarrow> (w3, Inr image_path)))))))"

section \<open>client.py: building the request\<close>

text \<open>
  \<open>_build_request_data\<close>. The file name of the image takes one random draw, only when
  there is an uploaded path; the session id and the timestamp take one draw each.
  \<open>url_context_flag\<close> is computed as in the source, which uses it for a debug message
  only; \<open>model\<close> is not used by the source either.

  With \<open>debug\<close> on, the function first prints the three identifiers, each as
  \<open>x[:40] if x else 'None'\<close> where \<open>x\<close> is the identifier or the empty string. The
  identifiers are annotated \<open>str\<close>; for a value that cannot be sliced the expression
  raises, outside any \<open>try\<close>, before anything is built. The three expressions are
  evaluated in order.
\<close>

definition build_debug_message :: "pylib \<Rightarrow> client \<Rightarrow> py_exn + json list" where
  "build_debug_message lib c =
     (case id_preview lib (py_or (conversation_id c) (JStr [])) 40 of
        Inl ex \<Rightarrow> Inl ex
      | Inr conv \<Rightarrow>
          (case id_preview lib (py_or (response_id c) (JStr [])) 40 of
             Inl ex \<Rightarrow> Inl ex
           | Inr resp \<Rightarrow>
               (case id_preview lib (py_or (choice_id c) (JStr [])) 40 of
                  Inl ex \<Rightarrow> Inl ex
                | Inr choice \<Rightarrow> Inr [conv, resp, choice])))"

definition url_context_flag :: "bool \<Rightarrow> (pystr \<times> json) list list option \<Rightarrow> json" where
  "url_context_flag url_context tools =
     (if url_context \<or>
         (case tools of None \<Rightarrow> False
          | Some ts \<Rightarrow> ts \<noteq> [] \<and> list_ex (\<lambda>tool. has_key tool (ascii ''urlContext'')) ts)
      then JInt 1 else JNull)"

definition inner_data ::
  "client \<Rightarrow> pystr \<Rightarrow> json \<Rightarrow> pystr \<Rightarrow> int \<Rightarrow> json" where
  "inner_data c text image_data session_id timestamp =
    (let conv_id = py_or (conversation_id c) (JStr []);
         resp_id = py_or (response_id c) (JStr []);
         choice_id' = py_or (choice_id c) (JStr [])
     in JArr [
      JArr [JStr text, JInt 0, JNull, image_data, JNull, JNull, JInt 0],
      JArr [JStr (ascii ''zh-CN'')],
      JArr [conv_id, resp_id, choice_id', JNull, JNull, JNull, JNull, JNull, JNull, JStr []],
      (case snlm0e c of None \<Rightarrow> JNull | Some tok \<Rightarrow> JStr tok),
      JNull,
      JNull,
      JArr [JInt 1],
      JInt 1,
      JNull,
      JNull,
      JInt 1,
      JInt 0,
      JNull,
      JNull,
      JNull,
      JNull,
      JNull,
      JArr [JArr [JInt 0]],
      JInt 0,
      JNull,
      JNull,
      JNull,
      JNull,
      JNull,
      JNull,
      JNull,
      JNull,
      JInt 1,
      JNull,
      JNull,
      JArr [JInt 4],
      JNull,
      JNull,
      JNull,
      JNull,
      JNull,
      JNull,
      JNull,
      JNull,
      JNull,
      JNull,
      JArr [JInt 1],
      JNull,
      JNull,
      JNull,
      JNull,
      JNull,
      JNull,
      JNull,
      JNull,
      JNull,
      JNull,
      JNull,
      JInt 0,
      JNull,
      JNull,
      JNull,
      JNull,
      JNull,
      JStr session_id,
      JNull,
      JArr [],
      JNull,
      JNull,
      JNull,
      JNull,
      JArr [JInt (timestamp div 1000), JInt ((timestamp mod 1000) * 1000000)]
     ])"

text \<open>
  The block that builds \<open>image_data\<close>: None without an uploaded path, else the array
  around the first path, the MIME type of the first image (or \<open>image/png\<close>) and a file
  name with a random number.
\<close>

definition request_image_data ::
  "env \<Rightarrow> pylib \<Rightarrow> image list option \<Rightarrow> pystr list option \<Rightarrow> world \<Rightarrow> world \<times> json" where
  "request_image_data e lib images image_paths w =
     (case image_paths of
        Some (path # _) \<Rightarrow>
          (let mime = (case images of Some (img # _) \<Rightarrow> mime_type img
                       | _ \<Rightarrow> ascii ''image/png'');
               filename = ascii ''image_'' @ py_str lib (JInt (randint e (draws w)))
                          @ ascii ''.png''
           in (draw w,
               JArr [JArr [JArr [JStr path, JInt 1, JNull, JStr mime], JStr filename]]))
      | _ \<Rightarrow> (w, JNull))"

text \<open>
  The array \<open>inner_data\<close> as \<open>_build_request_data\<close> fills it: the image data, then
  the session id and the timestamp, one draw each.
\<close>

definition build_inner ::
  "env \<Rightarrow> pylib \<Rightarrow> client \<Rightarrow> pystr \<Rightarrow> image list option \<Rightarrow> pystr list option \<Rightarrow> world \<Rightarrow>
   world \<times> json" where
  "build_inner e lib c text images image_paths w =
     (let (w1, image_data) = request_image_data e lib images image_paths w;
          session_id = uuid4 e (draws w1);
          w2 = draw w1;
          timestamp = time_ms e (draws w2);
          w3 = draw w2
      in (w3, inner_data c text image_data session_id timestamp))"

definition build_request_data ::
  "env \<Rightarrow> pylib \<Rightarrow> client \<Rightarrow> pystr \<Rightarrow> image list option \<Rightarrow> pystr list option \<Rightarrow>
   pystr option \<Rightarrow> bool \<Rightarrow> (pystr \<times> json) list list option \<Rightarrow> world \<Rightarrow>
   world \<times> (py_exn + pystr)" where
  "build_request_data e lib c text images image_paths model url_context tools w =
     (case (if debug c then build_debug_message lib c else Inr []) of
        Inl ex \<Rightarrow> (w, Inl ex)
      | Inr shown \<Rightarrow>
          (let flag = url_context_flag url_context tools;
               (w3, inner) = build_inner e lib c text images image_paths w;
               inner_json = json_dumps lib inner;
               outer_data = JArr [JNull, JStr inner_json];
               f_req_value = json_dumps lib outer_data
           in (w3, Inr f_req_value)))"

section \<open>client.py: parsing the response\<close>

text \<open>\<open>x == n\<close> for an integer literal: Python compares numbers by value.\<close>

fun py_eq_int :: "json \<Rightarrow> int \<Rightarrow> bool" where
  "py_eq_int (JInt i) n = (i = n)"
| "py_eq_int (JFloat (Finite r)) n = (r = of_int n)"
| "py_eq_int (JBool b) n = ((if b then 1 else 0) = n)"
| "py_eq_int _ n = False"

definition fallback_text :: pystr where
  "fallback_text = [26080, 27861, 35299, 26512, 21709, 24212]"

text \<open>
  The test on the sixth element of a \<open>wrb.fr\<close> entry: a non-empty list whose first
  element equals 9 marks a citation status, and the line is skipped.
\<close>

definition is_citation_status :: "json list \<Rightarrow> bool" where
  "is_citation_status actual_data =
     (length actual_data \<ge> 6 \<and>
      (case actual_data ! 5 of
         JArr (citation_type # _) \<Rightarrow> py_eq_int citation_type 9
       | _ \<Rightarrow> False))"

text \<open>
  The block that updates the session context from \<open>inner_json[1]\<close>. An exception can
  only come from \<open>len(inner_json)\<close> or \<open>inner_json[1]\<close>, before any assignment. The
  \<open>elif\<close> of the source is kept although its condition implies the one of the \<open>if\<close>
  before it.
\<close>

definition update_context :: "json \<Rightarrow> client \<Rightarrow> py_exn + client" where
  "update_context inner_json c =
     (case py_len inner_json of Inl ex \<Rightarrow> Inl ex | Inr n \<Rightarrow>
      if n > 1 then
        (case py_getitem inner_json 1 of Inl ex \<Rightarrow> Inl ex | Inr ids \<Rightarrow>
         (case ids of
            JArr l1 \<Rightarrow>
              if l1 = [] then Inr c
              else
                let c1 = (if length l1 > 0 \<and> truthy (l1 ! 0)
                          then c\<lparr>conversation_id := py_or (l1 ! 0) (conversation_id c)\<rparr>
                          else c);
                    r2 = (if length l1 > 1 \<and> truthy (l1 ! 1)
                          then Inr (c1\<lparr>response_id := py_or (l1 ! 1) (response_id c1)\<rparr>)
                          else if length l1 = 2 \<and> l1 ! 0 = JNull \<and> truthy (l1 ! 1)
                          then
                            (let c1' = c1\<lparr>response_id := py_or (l1 ! 1) (response_id c1)\<rparr>
                             in if n > 16
                                then (case py_getitem inner_json 16 of
                                        Inl ex \<Rightarrow> Inl ex
                                      | Inr v \<Rightarrow>
                                          if truthy v
                                          then Inr (c1'\<lparr>conversation_id :=
                                                          py_or v (conversation_id c1')\<rparr>)
                                          else Inr c1')
                                else Inr c1')
                          else Inr c1)
                in (case r2 of
                      Inl ex \<Rightarrow> Inl ex
                    | Inr c2 \<Rightarrow>
                        if conversation_id c2 \<noteq> conversation_id c \<or> response_id c2 \<noteq> response_id c
                        then Inr (save_session_state c2)
                        else Inr c2)
          | _ \<Rightarrow> Inr c))
      else Inr c)"

text \<open>
  The guards in front of the text extraction:
  \<^verbatim>\<open>
  if inner_json and len(inner_json) > 4 and inner_json[4]:
      candidates = inner_json[4]
      if candidates and len(candidates) > 0:
          candidate = candidates[0]
          if candidate and len(candidate) > 1 and candidate[1]:
              content_parts = candidate[1]
  \<close>
  The result is the candidate with its content parts, None when a guard fails, an
  exception when \<open>len\<close> or an index raises.
\<close>

definition first_candidate :: "json \<Rightarrow> py_exn + (json \<times> json) option" where
  "first_candidate inner_json =
     (if \<not> truthy inner_json then Inr None
      else (case py_len inner_json of Inl ex \<Rightarrow> Inl ex | Inr n \<Rightarrow>
      (if \<not> (n > 4) then Inr None
      else (case py_getitem inner_json 4 of Inl ex \<Rightarrow> Inl ex | Inr candidates \<Rightarrow>
      (if \<not> truthy candidates then Inr None
      else (case py_len candidates of Inl ex \<Rightarrow> Inl ex | Inr m \<Rightarrow>
      (if \<not> (m > 0) then Inr None
      else (case py_getitem candidates 0 of Inl ex \<Rightarrow> Inl ex | Inr candidate \<Rightarrow>
      (if \<not> truthy candidate then Inr None
      else (case py_len candidate of Inl ex \<Rightarrow> Inl ex | Inr k \<Rightarrow>
      (if \<not> (k > 1) then Inr None
      else (case py_getitem candidate 1 of Inl ex \<Rightarrow> Inl ex | Inr content_parts \<Rightarrow>
      (if \<not> truthy content_parts then Inr None
      else Inr (Some (candidate, content_parts)))))))))))))))"

text \<open>\<open>text += x\<close> with \<open>text\<close> a string: a TypeError unless \<open>x\<close> is a string.\<close>

fun str_operand :: "json \<Rightarrow> py_exn + pystr" where
  "str_operand (JStr s) = Inr s"
| "str_operand _ = Inl TypeError"

text \<open>What one element of a \<open>parts\<close> array adds to the text.\<close>

fun subpart_text :: "json \<Rightarrow> py_exn + pystr" where
  "subpart_text (JStr s) = Inr s"
| "subpart_text (JObj d) =
     (if has_key d (ascii ''text'') then str_operand (the (map_of d (ascii ''text'')))
      else if has_key d (ascii ''inlineData'') then Inr []
      else if has_key d (ascii ''functionCall'') then Inr []
      else Inr [])"
| "subpart_text _ = Inr []"

text \<open>The texts of a sequence, appended in order; the first exception ends the loop.\<close>

fun concat_texts :: "(json \<Rightarrow> py_exn + pystr) \<Rightarrow> json list \<Rightarrow> py_exn + pystr" where
  "concat_texts f [] = Inr []"
| "concat_texts f (x # xs) =
     (case f x of Inl ex \<Rightarrow> Inl ex | Inr t \<Rightarrow>
      (case concat_texts f xs of Inl ex \<Rightarrow> Inl ex | Inr ts \<Rightarrow> Inr (t @ ts)))"

text \<open>
  The last branch for a dict part: the first of the keys \<open>text\<close>, \<open>content\<close>, \<open>value\<close>
  that the part has, through \<open>str()\<close>.
\<close>

fun first_key_text :: "pylib \<Rightarrow> (pystr \<times> json) list \<Rightarrow> pystr list \<Rightarrow> pystr" where
  "first_key_text lib d [] = []"
| "first_key_text lib d (k # ks) =
     (if has_key d k then str_of lib (the (map_of d k)) else first_key_text lib d ks)"

text \<open>What one element of the content parts adds to the text.\<close>

fun part_text :: "pylib \<Rightarrow> json \<Rightarrow> py_exn + pystr" where
  "part_text lib (JStr s) = Inr s"
| "part_text lib (JObj d) =
     (if has_key d (ascii ''text'') then str_operand (the (map_of d (ascii ''text'')))
      else if has_key d (ascii ''content'')
      then Inr (str_of lib (the (map_of d (ascii ''content''))))
      else if has_key d (ascii ''parts'')
      then (case py_iter (the (map_of d (ascii ''parts''))) of
              Inl ex \<Rightarrow> Inl ex
            | Inr subparts \<Rightarrow> concat_texts subpart_text subparts)
      else if has_key d (ascii ''inlineData'') then Inr []
      else if has_key d (ascii ''functionCall'') then Inr []
      else Inr (first_key_text lib d [ascii ''text'', ascii ''content'', ascii ''value'']))"
| "part_text lib v = Inr (str_of lib v)"

definition content_text :: "pylib \<Rightarrow> json \<Rightarrow> py_exn + pystr" where
  "content_text lib content_parts =
     (case content_parts of
        JArr parts \<Rightarrow> concat_texts (part_text lib) parts
      | JStr s \<Rightarrow> Inr s
      | _ \<Rightarrow> Inr (str_of lib content_parts))"

text \<open>
  The text a decoded payload yields, with the candidate it comes from: None when a
  guard fails or the text is blank.
\<close>

definition candidate_text :: "pylib \<Rightarrow> json \<Rightarrow> py_exn + (pystr \<times> json) option" where
  "candidate_text lib inner_json =
     (case first_candidate inner_json of
        Inl ex \<Rightarrow> Inl ex
      | Inr None \<Rightarrow> Inr None
      | Inr (Some (candidate, content_parts)) \<Rightarrow>
          (case content_text lib content_parts of
             Inl ex \<Rightarrow> Inl ex
           | Inr text \<Rightarrow>
               if length (strip lib text) > 0 then Inr (Some (text, candidate)) else Inr None))"

text \<open>
  The assignment of a new text: it replaces the text so far when it is longer or when
  there is none yet; the choice id follows, and the state is saved. The candidate is a
  list or a string of length above 1 here, so \<open>candidate[0]\<close> exists.
\<close>

definition accept_text :: "pystr \<Rightarrow> json \<Rightarrow> client \<times> pystr \<Rightarrow> py_exn + client \<times> pystr" where
  "accept_text text candidate st =
     (let (c, final_text) = st
      in if length text > length final_text \<or> final_text = []
         then (case py_len candidate of Inl ex \<Rightarrow> Inl ex | Inr k \<Rightarrow>
               if k > 0
               then (case py_getitem candidate 0 of Inl ex \<Rightarrow> Inl ex | Inr c0 \<Rightarrow>
                     Inr (save_session_state (c\<lparr>choice_id := py_or c0 (choice_id c)\<rparr>), text))
               else Inr (save_session_state c, text))
         else Inr (c, final_text))"

text \<open>
  The decoded payload of a line: None when the line is not a \<open>wrb.fr\<close> entry with a
  payload or is a citation status, an exception when \<open>json.loads\<close> raises (also for a
  payload that is not a string).
\<close>

definition line_payload :: "pylib \<Rightarrow> pystr \<Rightarrow> py_exn + json option" where
  "line_payload lib line =
     (case json_loads lib line of
        Inl ex \<Rightarrow> Inl ex
      | Inr (JArr (JArr actual_data # _)) \<Rightarrow>
          if length actual_data \<ge> 3 \<and> actual_data ! 0 = JStr (ascii ''wrb.fr'')
          then if is_citation_status actual_data then Inr None
               else if truthy (actual_data ! 2)
               then (case actual_data ! 2 of
                       JStr payload \<Rightarrow>
                         (case json_loads lib payload of Inl ex \<Rightarrow> Inl ex
                          | Inr inner_json \<Rightarrow> Inr (Some inner_json))
                     | _ \<Rightarrow> Inl TypeError)
               else Inr None
          else Inr None
      | Inr _ \<Rightarrow> Inr None)"

text \<open>
  The body of the inner \<open>try\<close> for one line that passed the filters. The state is the
  client and the text so far; an exception leaves the text so far as it was but keeps
  the assignments made to the client before it.
\<close>

definition try_line ::
  "pylib \<Rightarrow> pystr \<Rightarrow> client \<times> pystr \<Rightarrow> client \<times> (py_exn + pystr)" where
  "try_line lib line st =
     (let (c, final_text) = st
      in case line_payload lib line of
           Inl ex \<Rightarrow> (c, Inl ex)
         | Inr None \<Rightarrow> (c, Inr final_text)
         | Inr (Some inner_json) \<Rightarrow>
             (case update_context inner_json c of
                Inl ex \<Rightarrow> (c, Inl ex)
              | Inr c1 \<Rightarrow>
                  (case candidate_text lib inner_json of
                     Inl ex \<Rightarrow> (c1, Inl ex)
                   | Inr None \<Rightarrow> (c1, Inr final_text)
                   | Inr (Some (text, candidate)) \<Rightarrow>
                       (case accept_text text candidate (c1, final_text) of
                          Inl ex \<Rightarrow> (c1, Inl ex)
                        | Inr (c2, t) \<Rightarrow> (c2, Inr t)))))"

text \<open>The filters in front of the \<open>try\<close>: a line they catch is skipped.\<close>

definition skipped_line :: "pylib \<Rightarrow> pystr \<Rightarrow> bool" where
  "skipped_line lib line =
     (let line' = strip lib line
      in line' = [] \<or> startswith line' (ascii '')]}'' @ [39]) \<or> str_isdigit lib line')"

text \<open>One turn of the loop: the filters, the \<open>try\<close>, and \<open>except Exception: continue\<close>.\<close>

definition process_line :: "pylib \<Rightarrow> client \<times> pystr \<Rightarrow> pystr \<Rightarrow> client \<times> pystr" where
  "process_line lib st line =
     (if skipped_line lib line then st
      else case try_line lib (strip lib line) st of
             (c, Inl ex) \<Rightarrow> (c, snd st)
           | (c, Inr t) \<Rightarrow> (c, t))"

text \<open>
  \<open>_parse_response\<close>, with \<open>debug\<close> off. The loop runs over the lines; nothing outside
  the inner \<open>try\<close> can raise, and the outer \<open>try\<close> would turn an exception into the
  fallback as well. The result is the client after the call and the returned string.
\<close>

definition parse_response :: "pylib \<Rightarrow> pystr \<Rightarrow> client \<Rightarrow> client \<times> (py_exn + pystr)" where
  "parse_response lib response_text c =
     (let (c', final_text) = foldl (process_line lib) (c, []) (split_lines response_text)
      in if final_text \<noteq> [] \<and> strip lib final_text \<noteq> []
         then (c', Inr (strip lib final_text))
         else (c', Inr fallback_text))"

section \<open>client.py: sending a request\<close>

definition BASE_URL :: pystr where
  "BASE_URL = ascii ''https://gemini.google.com''"

definition chat_url :: pystr where
  "chat_url = BASE_URL @
     ascii ''/_/BardChatUi/data/assistant.lamda.BardFrontendService/StreamGenerate''"

text \<open>The query parameters of a chat request; \<open>_reqid\<close> takes one random draw.\<close>

definition request_params :: "env \<Rightarrow> pylib \<Rightarrow> client \<Rightarrow> world \<Rightarrow> (pystr \<times> pystr option) list" where
  "request_params e lib c w =
     [(ascii ''bl'', bl c),
      (ascii ''f.sid'', Some []),
      (ascii ''hl'', Some (ascii ''zh-CN'')),
      (ascii ''_reqid'',
       Some (py_str lib (JInt (request_count c * 100000 + randint e (draws w))))),
      (ascii ''rt'', Some (ascii ''c''))]"

text \<open>
  The chat request: \<open>form_data = {"f.req": req_data, "at": self.snlm0e}\<close>, posted to
  the chat URL with the query parameters.
\<close>

definition chat_request :: "(pystr \<times> pystr option) list \<Rightarrow> pystr \<Rightarrow> client \<Rightarrow> request" where
  "chat_request ps req_data c =
     \<lparr>http_method = POST, url = chat_url, params = ps,
      form = [(ascii ''f.req'', Some req_data), (ascii ''at'', snlm0e c)],
      req_headers = [], body = None\<rparr>"

text \<open>
  The loop over the images, in both senders: decode, upload, collect the path. The
  first exception ends it.
\<close>

fun upload_images ::
  "env \<Rightarrow> pylib \<Rightarrow> client \<Rightarrow> image list \<Rightarrow> world \<Rightarrow> world \<times> (py_exn + pystr list)" where
  "upload_images e lib c [] w = (w, Inr [])"
| "upload_images e lib c (img # imgs) w =
     (case b64decode lib (data img) of
        Inl ex \<Rightarrow> (w, Inl ex)
      | Inr img_data \<Rightarrow>
          (case upload_image e lib c img_data (mime_type img) w of
             (w1, Inl ex) \<Rightarrow> (w1, Inl ex)
           | (w1, Inr path) \<Rightarrow>
               (case upload_images e lib c imgs w1 of
                  (w2, Inl ex) \<Rightarrow> (w2, Inl ex)
                | (w2, Inr paths) \<Rightarrow> (w2, Inr (path # paths)))))"

subsection \<open>The streaming sender\<close>

definition stream_update_context :: "json \<Rightarrow> client \<Rightarrow> py_exn + client" where
  "stream_update_context inner_json c =
     (case py_len inner_json of Inl ex \<Rightarrow> Inl ex | Inr n \<Rightarrow>
      (if n > 1 then
        (case py_getitem inner_json 1 of Inl ex \<Rightarrow> Inl ex | Inr ids \<Rightarrow>
         (case ids of
            JArr l1 \<Rightarrow>
              (if l1 = [] then Inr c
               else
                 (let c1 = (if length l1 > 0 \<and> truthy (l1 ! 0)
                            then c\<lparr>conversation_id := py_or (l1 ! 0) (conversation_id c)\<rparr>
                            else c);
                      c2 = (if length l1 > 1 \<and> truthy (l1 ! 1)
                            then c1\<lparr>response_id := py_or (l1 ! 1) (response_id c1)\<rparr>
                            else c1)
                  in Inr c2))
          | _ \<Rightarrow> Inr c))
      else Inr c))"

fun stream_part_text :: "pylib \<Rightarrow> json \<Rightarrow> py_exn + pystr" where
  "stream_part_text lib (JStr s) = Inr (strip lib s)"
| "stream_part_text lib (JObj d) =
     (if has_key d (ascii ''text'') then str_operand (the (map_of d (ascii ''text'')))
      else if has_key d (ascii ''content'')
      then Inr (str_of lib (the (map_of d (ascii ''content''))))
      else if has_key d (ascii ''inlineData'') then Inr []
      else Inr [])"
| "stream_part_text lib v = Inr []"

definition stream_content_text :: "pylib \<Rightarrow> json \<Rightarrow> py_exn + pystr" where
  "stream_content_text lib content_parts =
     (case content_parts of
        JArr parts \<Rightarrow> concat_texts (stream_part_text lib) parts
      | JStr s \<Rightarrow> Inr s
      | _ \<Rightarrow> Inr [])"

definition stream_payload :: "pylib \<Rightarrow> pystr \<Rightarrow> py_exn + json option" where
  "stream_payload lib line =
     (case json_loads lib line of
        Inl ex \<Rightarrow> Inl ex
      | Inr (JArr (JArr actual_data # _)) \<Rightarrow>
          (if length actual_data \<ge> 3 \<and> actual_data ! 0 = JStr (ascii ''wrb.fr'')
              \<and> truthy (actual_data ! 2)
           then (case actual_data ! 2 of
                   JStr payload \<Rightarrow>
                     (case json_loads lib payload of Inl ex \<Rightarrow> Inl ex
                      | Inr inner_json \<Rightarrow> Inr (Some inner_json))
                 | _ \<Rightarrow> Inl TypeError)
           else Inr None)
      | Inr _ \<Rightarrow> Inr None)"

text \<open>
  One line of the streamed response. The state is the client, the text yielded so far
  and the chunks yielded, in order. An exception in the \<open>try\<close> skips the rest of the
  line and keeps the assignments made before it.
\<close>

definition stream_try_line ::
  "pylib \<Rightarrow> pystr \<Rightarrow> client \<times> pystr \<times> pystr list \<Rightarrow> client \<times> pystr \<times> pystr list" where
  "stream_try_line lib line st =
     (let (c, last_text, chunks) = st
      in (case stream_payload lib line of
            Inl ex \<Rightarrow> st
          | Inr None \<Rightarrow> st
          | Inr (Some inner_json) \<Rightarrow>
              (case stream_update_context inner_json c of
                 Inl ex \<Rightarrow> st
               | Inr c1 \<Rightarrow>
                   (case first_candidate inner_json of
                      Inl ex \<Rightarrow> (c1, last_text, chunks)
                    | Inr None \<Rightarrow> (c1, last_text, chunks)
                    | Inr (Some (candidate, content_parts)) \<Rightarrow>
                        (case stream_content_text lib content_parts of
                           Inl ex \<Rightarrow> (c1, last_text, chunks)
                         | Inr current_text \<Rightarrow>
                             (if current_text \<noteq> [] \<and> length current_text > length last_text
                              then (let new_text = drop (length last_text) current_text
                                    in if new_text \<noteq> []
                                       then (c1, current_text, chunks @ [new_text])
                                       else (c1, last_text, chunks))
                              else (c1, last_text, chunks)))))))"

definition stream_line ::
  "pylib \<Rightarrow> client \<times> pystr \<times> pystr list \<Rightarrow> pystr \<Rightarrow> client \<times> pystr \<times> pystr list" where
  "stream_line lib st line =
     (if skipped_line lib line then st else stream_try_line lib (strip lib line) st)"

text \<open>
  The start of the \<open>try\<close> of both senders: the form
  \<open>{"f.req": req_data, "at": self.snlm0e}\<close> is posted and \<open>raise_for_status\<close> is
  called. Both senders turn every exception of this part into a plain Exception.
\<close>

definition post_chat ::
  "env \<Rightarrow> pylib \<Rightarrow> client \<Rightarrow> (pystr \<times> pystr option) list \<Rightarrow> pystr \<Rightarrow> world \<Rightarrow>
   world \<times> (py_exn + response)" where
  "post_chat e lib c ps req_data w =
     (let (w2, result) = send e (chat_request ps req_data c) w
      in (case result of
            Inl ex \<Rightarrow> (w2, Inl PyException)
          | Inr resp \<Rightarrow>
              (if is_error_status lib (resp_status resp) then (w2, Inl PyException)
               else (w2, Inr resp))))"

text \<open>
  The paths of the images in \<open>_send_stream_request\<close>: the ones given, or, when
  \<open>image_paths\<close> is None, the ones of the upload; there \<open>push_id\<close> is required, and
  every exception of the loop becomes ImageUploadError.
\<close>

definition stream_image_paths ::
  "env \<Rightarrow> pylib \<Rightarrow> client \<Rightarrow> image list option \<Rightarrow> pystr list option \<Rightarrow> world \<Rightarrow>
   world \<times> (py_exn + pystr list)" where
  "stream_image_paths e lib c images image_paths w =
     (case image_paths of
        Some given \<Rightarrow> (w, Inr given)
      | None \<Rightarrow>
          (case images of
             Some (img # imgs) \<Rightarrow>
               (if unset (push_id c) then (w, Inl CookieExpiredError)
                else (case upload_images e lib c (img # imgs) w of
                        (w', Inl ex) \<Rightarrow> (w', Inl ImageUploadError)
                      | (w', Inr paths) \<Rightarrow> (w', Inr paths)))
           | _ \<Rightarrow> (w, Inr [])))"

text \<open>
  \<open>_send_stream_request\<close> is a generator: calling it runs nothing, and its body runs
  when the generator is iterated. The model is the body run to its end: the client and
  the world after it, and the chunks yielded or the exception raised. The request data
  are built before the \<open>try\<close>, so an exception of \<open>_build_request_data\<close> is raised
  by the sender unchanged.
\<close>

definition send_stream_request ::
  "env \<Rightarrow> pylib \<Rightarrow> client \<Rightarrow> pystr \<Rightarrow> image list option \<Rightarrow> pystr option \<Rightarrow> bool \<Rightarrow>
   (pystr \<times> json) list list option \<Rightarrow> pystr list option \<Rightarrow> world \<Rightarrow>
   client \<times> world \<times> (py_exn + pystr list)" where
  "send_stream_request e lib c text images model url_context tools image_paths w =
     (let ps = request_params e lib c w;
          w0 = draw w;
          (w1, paths_result) = stream_image_paths e lib c images image_paths w0
      in (case paths_result of
            Inl ex \<Rightarrow> (c, w1, Inl ex)
          | Inr paths \<Rightarrow>
              (case build_request_data e lib c text images (Some paths) model url_context
                      tools w1 of
                 (w2, Inl ex) \<Rightarrow> (c, w2, Inl ex)
               | (w2, Inr req_data) \<Rightarrow>
                   (case post_chat e lib c ps req_data w2 of
                      (w3, Inl ex) \<Rightarrow> (c, w3, Inl ex)
                    | (w3, Inr resp) \<Rightarrow>
                        (let c1 = c\<lparr>request_count := request_count c + 1\<rparr>;
                             (c2, last_text, chunks) =
                                foldl (stream_line lib) (c1, [], [])
                                  (split_lines (resp_text resp))
                         in (c2, w3, Inr chunks))))))"

subsection \<open>The plain sender\<close>

record chat_completion_response =
  cc_id :: pystr
  cc_created :: int
  cc_model :: pystr
  cc_content :: pystr
  prompt_tokens :: nat
  completion_tokens :: nat
  total_tokens :: nat

text \<open>
  The test of the debug branch for the first block of a streamed answer: a line that
  decodes to a payload of more than four elements whose fifth is None.
\<close>

definition streaming_initial_line :: "pylib \<Rightarrow> pystr \<Rightarrow> bool" where
  "streaming_initial_line lib line =
     (\<not> skipped_line lib line \<and>
      (case stream_payload lib (strip lib line) of
         Inr (Some inner_json) \<Rightarrow>
           truthy inner_json \<and>
           (case py_len inner_json of
              Inr n \<Rightarrow> n > 4 \<and> py_getitem inner_json 4 = Inr JNull
            | Inl ex \<Rightarrow> False)
       | _ \<Rightarrow> False))"

definition is_streaming_initial :: "pylib \<Rightarrow> pystr \<Rightarrow> bool" where
  "is_streaming_initial lib response_text =
     list_ex (streaming_initial_line lib) (split_lines response_text)"

definition still_processing_text :: pystr where
  "still_processing_text =
     [22270, 29255, 22788, 29702, 26102, 38388, 36739, 38271, 65292, 35831, 31245, 21518,
      37325, 35797, 25110, 21457, 36865, 26032, 28040, 24687, 32487, 32493, 23545, 35805]"

definition processing_failed_text :: pystr where
  "processing_failed_text =
     [22270, 29255, 22788, 29702, 22833, 36133, 65292, 35831, 31245, 21518, 37325, 35797]"

text \<open>
  The debug branch that follows a reply that could not be parsed: when the response was
  the first block of a stream, a response id is known and images were uploaded, the
  request is sent again through the streaming sender with the paths already uploaded,
  and the chunks are collected. The wall-clock limits of the collecting loop are not
  modelled: the generator is read to its end.
\<close>

definition debug_fallback ::
  "env \<Rightarrow> pylib \<Rightarrow> pystr \<Rightarrow> image list option \<Rightarrow> pystr option \<Rightarrow> bool \<Rightarrow>
   (pystr \<times> json) list list option \<Rightarrow> pystr list \<Rightarrow> pystr \<Rightarrow> client \<times> world \<times> pystr \<Rightarrow>
   client \<times> world \<times> pystr" where
  "debug_fallback e lib text images model url_context tools image_paths response_text st =
     (let (c, w, reply_text) = st
      in if reply_text = fallback_text \<and> debug c
            \<and> is_streaming_initial lib response_text \<and> truthy (response_id c)
            \<and> image_paths \<noteq> []
         then (case send_stream_request e lib c text images model url_context tools
                       (Some image_paths) w of
                 (c', w', Inl ex) \<Rightarrow> (c', w', processing_failed_text)
               | (c', w', Inr chunks) \<Rightarrow>
                   (let full_stream_text = concat chunks
                    in if full_stream_text \<noteq> [] \<and> length (strip lib full_stream_text) > 0
                       then (c', w', strip lib full_stream_text)
                       else (c', w', still_processing_text)))
         else st)"

text \<open>
  The paths of the images in \<open>_send_request\<close>: \<open>push_id\<close> is required when there
  are images; CookieExpiredError passes, any other exception of the loop becomes
  ImageUploadError.
\<close>

definition request_image_paths ::
  "env \<Rightarrow> pylib \<Rightarrow> client \<Rightarrow> image list option \<Rightarrow> world \<Rightarrow> world \<times> (py_exn + pystr list)" where
  "request_image_paths e lib c images w =
     (case images of
        Some (img # imgs) \<Rightarrow>
          (if unset (push_id c) then (w, Inl CookieExpiredError)
           else (case upload_images e lib c (img # imgs) w of
                   (w', Inl ex) \<Rightarrow>
                     (w', Inl (if ex = CookieExpiredError then CookieExpiredError
                               else ImageUploadError))
                 | (w', Inr paths) \<Rightarrow> (w', Inr paths)))
      | _ \<Rightarrow> (w, Inr []))"

text \<open>
  What \<open>_send_request\<close> does with a response that passed \<open>raise_for_status\<close>: the
  count, the parsing, the debug branch, the reply appended to the history, and the
  response object (two readings of the clock).
\<close>

definition complete_request ::
  "env \<Rightarrow> pylib \<Rightarrow> client \<Rightarrow> pystr \<Rightarrow> image list option \<Rightarrow> pystr option \<Rightarrow> bool \<Rightarrow>
   (pystr \<times> json) list list option \<Rightarrow> pystr list \<Rightarrow> response \<Rightarrow> world \<Rightarrow>
   client \<times> world \<times> chat_completion_response" where
  "complete_request e lib c text images model url_context tools image_paths resp w =
     (let c1 = c\<lparr>request_count := request_count c + 1\<rparr>;
          (c2, parsed) = parse_response lib (resp_text resp) c1;
          reply0 = (case parsed of Inr t \<Rightarrow> t | Inl ex \<Rightarrow> fallback_text);
          (c3, w1, reply_text) =
             debug_fallback e lib text images model url_context tools image_paths
               (resp_text resp) (c2, w, reply0);
          c4 = save_session_state
                 (c3\<lparr>messages := messages c3 @
                       [Message (JStr (ascii ''assistant'')) (JStr reply_text)]\<rparr>);
          cid = str_of lib (py_or (conversation_id c4) (JStr (ascii ''gemini'')));
          t1 = time_ms e (draws w1) div 1000;
          t2 = time_ms e (draws w1 + 1) div 1000;
          w2 = draw (draw w1)
      in (c4, w2,
          \<lparr>cc_id = ascii ''chatcmpl-'' @ cid @ ascii ''-'' @ py_str lib (JInt t1),
           cc_created = t2,
           cc_model = ascii ''gemini-web'',
           cc_content = reply_text,
           prompt_tokens = length text,
           completion_tokens = length reply_text,
           total_tokens = length text + length reply_text\<rparr>))"

text \<open>
  The debug messages of \<open>_send_request\<close> between the request data and the \<open>try\<close>.
  One of them prints \<open>self.snlm0e[:30]\<close>, a TypeError when the token is None.
\<close>

definition request_debug_message :: "client \<Rightarrow> py_exn + pystr" where
  "request_debug_message c =
     (case snlm0e c of None \<Rightarrow> Inl TypeError | Some tok \<Rightarrow> Inr (take 30 tok))"

text \<open>
  \<open>_send_request\<close>. Before the \<open>try\<close>: the query parameters, the upload of the
  images, the request data, the debug messages; an exception there is raised by the
  sender unchanged. In the \<open>try\<close>: the request, \<open>raise_for_status\<close>, and the
  completion; both handlers raise a plain Exception. Log and debug files are not modelled.
\<close>

definition send_request ::
  "env \<Rightarrow> pylib \<Rightarrow> client \<Rightarrow> pystr \<Rightarrow> image list option \<Rightarrow> pystr option \<Rightarrow> bool \<Rightarrow>
   (pystr \<times> json) list list option \<Rightarrow> world \<Rightarrow>
   client \<times> world \<times> (py_exn + chat_completion_response)" where
  "send_request e lib c text images model url_context tools w =
     (let ps = request_params e lib c w;
          w0 = draw w;
          (w1, paths_result) = request_image_paths e lib c images w0
      in (case paths_result of
            Inl ex \<Rightarrow> (c, w1, Inl ex)
          | Inr image_paths \<Rightarrow>
              (case build_request_data e lib c text images (Some image_paths) model
                      url_context tools w1 of
                 (w2, Inl ex) \<Rightarrow> (c, w2, Inl ex)
               | (w2, Inr req_data) \<Rightarrow>
                   (case (if debug c then request_debug_message c else Inr []) of
                      Inl ex \<Rightarrow> (c, w2, Inl ex)
                    | Inr shown \<Rightarrow>
                        (case post_chat e lib c ps req_data w2 of
                           (w3, Inl ex) \<Rightarrow> (c, w3, Inl ex)
                         | (w3, Inr resp) \<Rightarrow>
                             (case complete_request e lib c text images model url_context
                                     tools image_paths resp w3 of
                                (c', w4, completion) \<Rightarrow> (c', w4, Inr completion)))))))"

section \<open>client.py: chat\<close>

definition get_request :: "pystr \<Rightarrow> request" where
  "get_request u =
     \<lparr>http_method = GET, url = u, params = [], form = [], req_headers = [], body = None\<rparr>"

text \<open>\<open>resp.headers.get("content-type", "image/jpeg").split(";")[0]\<close>.\<close>

definition response_mime :: "response \<Rightarrow> pystr" where
  "response_mime resp =
     takeWhile (\<lambda>ch. ch \<noteq> 59)
       (case resp_headers resp (ascii ''content-type'') of
          None \<Rightarrow> ascii ''image/jpeg'' | Some v \<Rightarrow> v)"

text \<open>
  The URL of an \<open>image_url\<close> item: \<open>item["image_url"]\<close> itself when it is a
  string, else its \<open>url\<close> entry; the defaults are an empty dict and an empty string.
\<close>

definition item_url :: "json \<Rightarrow> py_exn + json" where
  "item_url item =
     (case py_get item (ascii ''image_url'') (JObj []) of
        Inl ex \<Rightarrow> Inl ex
      | Inr image_url_data \<Rightarrow>
          (case image_url_data of
             JStr u \<Rightarrow> Inr (JStr u)
           | _ \<Rightarrow> py_get image_url_data (ascii ''url'') (JStr [])))"

text \<open>
  The image behind a URL string: the groups of a data URL; the download of an http(s)
  URL, where a failure and a status other than 200 give nothing; else the string itself
  when its first 100 characters decode as base64.
\<close>

definition image_from_url :: "env \<Rightarrow> pylib \<Rightarrow> pystr \<Rightarrow> world \<Rightarrow> world \<times> image option" where
  "image_from_url e lib u w =
     (if startswith u (ascii ''data:'')
      then (w, (case re_data_url lib u of
                  Some (m, d) \<Rightarrow> Some \<lparr>mime_type = m, data = d\<rparr>
                | None \<Rightarrow> None))
      else if startswith u (ascii ''http://'') \<or> startswith u (ascii ''https://'')
      then (case send e (get_request u) w of
              (w1, Inr resp) \<Rightarrow>
                (w1, if resp_status resp = 200
                     then Some \<lparr>mime_type = response_mime resp,
                                data = b64encode lib (resp_content resp)\<rparr>
                     else None)
            | (w1, Inl ex) \<Rightarrow> (w1, None))
      else (w, (case b64decode lib (take 100 u) of
                  Inr decoded \<Rightarrow> Some \<lparr>mime_type = ascii ''image/png'', data = u\<rparr>
                | Inl ex \<Rightarrow> None)))"

text \<open>
  One item of a content list, in \<open>_parse_content\<close>. The state is the world, the text
  parts and the images collected so far.
\<close>

definition content_item ::
  "env \<Rightarrow> pylib \<Rightarrow> json \<Rightarrow> world \<times> json list \<times> image list \<Rightarrow>
   world \<times> (py_exn + json list \<times> image list)" where
  "content_item e lib item st =
     (let (w, text_parts, images) = st
      in (case py_get item (ascii ''type'') JNull of
            Inl ex \<Rightarrow> (w, Inl ex)
          | Inr ty \<Rightarrow>
              (if ty = JStr (ascii ''text'')
               then (case py_get item (ascii ''text'') (JStr []) of
                       Inl ex \<Rightarrow> (w, Inl ex)
                     | Inr t \<Rightarrow> (w, Inr (text_parts @ [t], images)))
               else if ty = JStr (ascii ''image_url'')
               then (case item_url item of
                       Inl ex \<Rightarrow> (w, Inl ex)
                     | Inr url_value \<Rightarrow>
                         (if \<not> truthy url_value then (w, Inr (text_parts, images))
                          else (case url_value of
                                  JStr u \<Rightarrow>
                                    (case image_from_url e lib u w of
                                       (w1, Some im) \<Rightarrow> (w1, Inr (text_parts, images @ [im]))
                                     | (w1, None) \<Rightarrow> (w1, Inr (text_parts, images)))
                                | _ \<Rightarrow> (w, Inl AttributeError))))
               else (w, Inr (text_parts, images)))))"

fun content_items ::
  "env \<Rightarrow> pylib \<Rightarrow> json list \<Rightarrow> world \<times> json list \<times> image list \<Rightarrow>
   world \<times> (py_exn + json list \<times> image list)" where
  "content_items e lib [] st = (fst st, Inr (snd st))"
| "content_items e lib (item # items) st =
     (case content_item e lib item st of
        (w1, Inl ex) \<Rightarrow> (w1, Inl ex)
      | (w1, Inr acc) \<Rightarrow> content_items e lib items (w1, acc))"

text \<open>\<open>" ".join(parts)\<close>: a TypeError unless every part is a string.\<close>

fun join_space :: "json list \<Rightarrow> py_exn + pystr" where
  "join_space [] = Inr []"
| "join_space [x] = str_operand x"
| "join_space (x # y # ys) =
     (case str_operand x of Inl ex \<Rightarrow> Inl ex | Inr t \<Rightarrow>
      (case join_space (y # ys) of Inl ex \<Rightarrow> Inl ex | Inr ts \<Rightarrow> Inr (t @ [32] @ ts)))"

text \<open>\<open>_parse_content(content)\<close>: the text and the images of an OpenAI content.\<close>

definition parse_content ::
  "env \<Rightarrow> pylib \<Rightarrow> json \<Rightarrow> world \<Rightarrow> world \<times> (py_exn + pystr \<times> image list)" where
  "parse_content e lib content_value w =
     (case content_value of
        JStr s \<Rightarrow> (w, Inr (s, []))
      | _ \<Rightarrow>
          (case py_iter content_value of
             Inl ex \<Rightarrow> (w, Inl ex)
           | Inr items \<Rightarrow>
               (case content_items e lib items (w, [], []) of
                  (w1, Inl ex) \<Rightarrow> (w1, Inl ex)
                | (w1, Inr (text_parts, images)) \<Rightarrow>
                    (if text_parts \<noteq> []
                     then (case join_space text_parts of
                             Inl ex \<Rightarrow> (w1, Inl ex)
                           | Inr t \<Rightarrow> (w1, Inr (t, images)))
                     else (w1, Inr ([], images))))))"

text \<open>\<open>msg.get(key, default)\<close> on a message, which is a dict.\<close>

definition dict_get :: "(pystr \<times> json) list \<Rightarrow> pystr \<Rightarrow> json \<Rightarrow> json" where
  "dict_get d k dflt = (case map_of d k of Some v \<Rightarrow> v | None \<Rightarrow> dflt)"

text \<open>
  The loop of \<open>chat\<close> over the messages. The state is the client, the world, and the
  text and images of the last user message so far.
\<close>

fun intake_messages ::
  "env \<Rightarrow> pylib \<Rightarrow> (pystr \<times> json) list list \<Rightarrow> client \<times> world \<times> pystr \<times> image list \<Rightarrow>
   client \<times> world \<times> (py_exn + pystr \<times> image list)" where
  "intake_messages e lib [] st =
     (case st of (c, w, text, images) \<Rightarrow> (c, w, Inr (text, images)))"
| "intake_messages e lib (msg # rest) st =
     (case st of (c, w, text, images) \<Rightarrow>
       (let r = dict_get msg (ascii ''role'') (JStr []);
            ct = dict_get msg (ascii ''content'') (JStr [])
        in if r = JStr (ascii ''user'')
           then (let c1 = c\<lparr>messages := messages c @ [Message (JStr (ascii ''user'')) ct]\<rparr>
                 in (case parse_content e lib ct w of
                       (w1, Inl ex) \<Rightarrow> (c1, w1, Inl ex)
                     | (w1, Inr (t, imgs)) \<Rightarrow> intake_messages e lib rest (c1, w1, t, imgs)))
           else if r = JStr (ascii ''assistant'')
           then intake_messages e lib rest
                  (c\<lparr>messages := messages c @ [Message (JStr (ascii ''assistant'')) ct]\<rparr>,
                   w, text, images)
           else intake_messages e lib rest (c, w, text, images)))"

text \<open>
  The image of the \<open>message\<close> form of \<open>chat\<close>: the bytes given, or the image behind
  \<open>image_url\<close> (a data URL, or a download whose failure is ignored).
\<close>

definition single_image ::
  "env \<Rightarrow> pylib \<Rightarrow> pybytes option \<Rightarrow> pystr option \<Rightarrow> world \<Rightarrow> world \<times> image list" where
  "single_image e lib img image_url w =
     (if img \<noteq> None \<and> img \<noteq> Some []
      then (w, [\<lparr>mime_type = ascii ''image/jpeg'', data = b64encode lib (the img)\<rparr>])
      else if \<not> unset image_url
      then (let u = the image_url
            in if startswith u (ascii ''data:'')
               then (case re_data_url lib u of
                       Some (m, d) \<Rightarrow> (w, [\<lparr>mime_type = m, data = d\<rparr>])
                     | None \<Rightarrow> (w, []))
               else (case send e (get_request u) w of
                       (w1, Inr resp) \<Rightarrow>
                         (w1, [\<lparr>mime_type = response_mime resp,
                                 data = b64encode lib (resp_content resp)\<rparr>])
                     | (w1, Inl ex) \<Rightarrow> (w1, [])))
      else (w, []))"

text \<open>
  The intake of \<open>chat\<close>, up to the test of the text: the optional reset, then the
  messages (with the bound on the history after the loop) or the single message.
\<close>

definition chat_intake ::
  "env \<Rightarrow> pylib \<Rightarrow> client \<Rightarrow> (pystr \<times> json) list list option \<Rightarrow> pystr option \<Rightarrow>
   pybytes option \<Rightarrow> pystr option \<Rightarrow> bool \<Rightarrow> world \<Rightarrow>
   client \<times> world \<times> (py_exn + pystr \<times> image list)" where
  "chat_intake e lib c msgs message img image_url reset_context w =
     (let c0 = (if reset_context then reset c else c)
      in if msgs \<noteq> None \<and> msgs \<noteq> Some []
         then (case intake_messages e lib (the msgs) (c0, w, [], []) of
                 (c1, w1, Inl ex) \<Rightarrow> (c1, w1, Inl ex)
               | (c1, w1, Inr ti) \<Rightarrow> (limit_history c1, w1, Inr ti))
         else if \<not> unset message
         then (let c1 = c0\<lparr>messages := messages c0 @
                             [Message (JStr (ascii ''user'')) (JStr (the message))]\<rparr>;
                   (w1, images) = single_image e lib img image_url w
               in (c1, w1, Inr (the message, images)))
         else (c0, w, Inr ([], [])))"



section \<open>client.py: constructing the client\<close>

definition default_bl :: pystr where
  "default_bl = ascii ''boq_assistant-bard-web-server_20241209.00_p0''"

definition fetch_bl :: "env \<Rightarrow> pylib \<Rightarrow> client \<Rightarrow> world \<Rightarrow> client \<times> world" where
  "fetch_bl e lib c w =
     (case send e (get_request BASE_URL) w of
        (w1, Inr resp) \<Rightarrow>
          (c\<lparr>bl := Some (case re_cfb2h lib (resp_text resp) of
                           Some v \<Rightarrow> v | None \<Rightarrow> default_bl)\<rparr>, w1)
      | (w1, Inl ex) \<Rightarrow> (c\<lparr>bl := Some default_bl\<rparr>, w1))"

text \<open>
  \<open>__init__\<close>: the attributes, the test of \<open>snlm0e\<close>, then \<open>_fetch_bl\<close> when no \<open>bl\<close>
  was given, and the session state. Creating the HTTP session sends nothing.
\<close>

definition init ::
  "env \<Rightarrow> pylib \<Rightarrow> pystr option \<Rightarrow> pystr option \<Rightarrow> pystr option \<Rightarrow> bool \<Rightarrow> session_file \<Rightarrow>
   world \<Rightarrow> world \<times> (py_exn + client)" where
  "init e lib snlm0e_arg bl_arg push_id_arg debug_arg file w =
     (let c = \<lparr>snlm0e = snlm0e_arg, bl = bl_arg, push_id = push_id_arg, debug = debug_arg,
               conversation_id = JStr [], response_id = JStr [], choice_id = JStr [],
               request_count = 0, messages = [], max_history_messages = 100\<rparr>
      in if unset (snlm0e c) then (w, Inl ValueError)
         else (let (c1, w1) = (if unset (bl c) then fetch_bl e lib c w else (c, w))
               in (w1, Inr (load_session_state lib file c1))))"

section \<open>Concrete libraries and environments\<close>

text \<open>
  Instances of the parameters, for evaluating the model on concrete inputs: a library
  whose JSON decoder is a table from texts to values (anything else is not JSON) and
  whose encoder is a table from values to texts, with ASCII white space and digits; an
  environment that answers the requests from a script, in order, and fails once the
  script is used up.
\<close>

definition table_lib :: "(pystr \<times> json) list \<Rightarrow> (json \<times> pystr) list \<Rightarrow> pylib" where
  "table_lib decoded encoded =
     \<lparr>json_loads = (\<lambda>s. case map_of decoded s of Some v \<Rightarrow> Inr v | None \<Rightarrow> Inl JSONDecodeError),
      json_dumps = (\<lambda>v. case map_of encoded v of Some s \<Rightarrow> s | None \<Rightarrow> []),
      py_str = (\<lambda>v. []),
      isspace = (\<lambda>ch. ch = 32 \<or> ch = 9 \<or> ch = 10 \<or> ch = 13),
      isdigit = (\<lambda>ch. 48 \<le> ch \<and> ch \<le> 57),
      re_data_url = (\<lambda>s. None),
      re_cfb2h = (\<lambda>s. None),
      re_contrib_service = (\<lambda>s. None),
      b64decode = (\<lambda>s. Inr s),
      b64encode = (\<lambda>b. b),
      is_error_status = (\<lambda>st. 400 \<le> st),
      hashable_slice = True\<rparr>"

definition scripted_env :: "(py_exn + response) list \<Rightarrow> env" where
  "scripted_env script =
     \<lparr>net = (\<lambda>tr r. if length tr < length script then script ! length tr
                       else Inl NetworkError),
      randint = (\<lambda>n. 123456),
      uuid4 = (\<lambda>n. ascii ''0F8FAD5B-D9CB-469F-A165-70867728950E''),
      time_ms = (\<lambda>n. 1700000000000)\<rparr>"

definition new_world :: world where
  "new_world = \<lparr>trace = [], draws = 0\<rparr>"

definition sample_client :: client where
  "sample_client =
     \<lparr>snlm0e = Some (ascii ''AKtoken''), bl = Some (ascii ''boq''), push_id = None,
      debug = False, conversation_id = JStr [], response_id = JStr [], choice_id = JStr [],
      request_count = 0, messages = [], max_history_messages = 100\<rparr>"

definition user_message :: "json \<Rightarrow> (pystr \<times> json) list" where
  "user_message ct = [(ascii ''role'', JStr (ascii ''user'')), (ascii ''content'', ct)]"

definition assistant_message :: "json \<Rightarrow> (pystr \<times> json) list" where
  "assistant_message ct = [(ascii ''role'', JStr (ascii ''assistant'')), (ascii ''content'', ct)]"

text \<open>
  The first request of an upload started in world \<open>w\<close>: the initialization request
  with the file name drawn there.
\<close>

definition first_request :: "env \<Rightarrow> pylib \<Rightarrow> client \<Rightarrow> pybytes \<Rightarrow> world \<Rightarrow> request" where
  "first_request e lib c image_data w =
     init_request lib (the (push_id c))
       (ascii ''image_'' @ py_str lib (JInt (randint e (draws w))) @ ascii ''.png'') image_data"

definition ok_response :: "(pystr \<times> pystr) list \<Rightarrow> pystr \<Rightarrow> response" where
  "ok_response hs txt =
     \<lparr>resp_status = 200, resp_headers = map_of hs, resp_text = txt, resp_content = []\<rparr>"

definition sample_path :: pystr where
  "sample_path = ascii ''/contrib_service/ttl_1d/1700000000000abcdefghij''"

section \<open>Predicates on traces\<close>

text \<open>
  \<open>extends_with P w w'\<close>: the world \<open>w'\<close> has the trace of \<open>w\<close> followed by requests
  that all satisfy \<open>P\<close>. \<open>token_request\<close>: the form of a request carries the token
  under \<open>at\<close>, and under \<open>f.req\<close> the doubly encoded array whose element 3 is the token.
\<close>

definition extends_with :: "(request \<Rightarrow> bool) \<Rightarrow> world \<Rightarrow> world \<Rightarrow> bool" where
  "extends_with P w w' = (\<exists>new. trace w' = trace w @ new \<and> (\<forall>req \<in> set new. P req))"

definition token_request :: "pylib \<Rightarrow> pystr option \<Rightarrow> request \<Rightarrow> bool" where
  "token_request lib tok req =
     (map_of (form req) (ascii ''at'') = Some tok
      \<and> (\<exists>inner. map_of (form req) (ascii ''f.req'')
                    = Some (Some (json_dumps lib (JArr [JNull, JStr (json_dumps lib (JArr inner))])))
            \<and> length inner = 67
            \<and> inner ! 3 = (case tok of None \<Rightarrow> JNull | Some t \<Rightarrow> JStr t)))"

text \<open>The requests a sender adds are uploads or chat requests that carry the token.\<close>

definition sender_request :: "pylib \<Rightarrow> pystr option \<Rightarrow> request \<Rightarrow> bool" where
  "sender_request lib tok req = (url req = chat_url \<longrightarrow> token_request lib tok req)"

definition sample_image :: image where
  "sample_image = \<lparr>mime_type = ascii ''image/png'', data = ascii ''aGk=''\<rparr>"

text \<open>
  \<open>roundtrip lib v\<close>: the decoder of the library inverts its encoder on \<open>v\<close>, as
  \<open>json.loads(json.dumps(v)) == v\<close> says. The sample inner array is the one the sample
  client sends for the text "hi"; the sample codec encodes and decodes it and the
  array around it.
\<close>

definition roundtrip :: "pylib \<Rightarrow> json \<Rightarrow> bool" where
  "roundtrip lib v = (json_loads lib (json_dumps lib v) = Inr v)"



text \<open>The text so far is empty or not blank.\<close>

definition text_ok :: "pylib \<Rightarrow> pystr \<Rightarrow> bool" where
  "text_ok lib ft = (ft = [] \<or> strip lib ft \<noteq> [])"

text \<open>Sample responses: a body without any entry, and a library that decodes some entries.\<close>

definition sample_body :: pystr where
  "sample_body = ascii '')]}'' @ [39, 10] @ ascii ''123'' @ [10, 10] @ ascii ''nonsense''
                   @ [10] @ ascii ''[1]''"

text \<open>
  \<open>text_line lib line strs\<close>: the line passes the filters and decodes to an array
  whose first element is a \<open>wrb.fr\<close> entry that is not a citation status and has a
  non-empty string payload; the payload decodes to an array with a non-empty candidate
  list at index 4, whose first candidate holds at index 1 the non-empty list of strings
  \<open>strs\<close>; and their concatenation is not blank.
\<close>

definition text_line ::
  "pylib \<Rightarrow> pystr \<Rightarrow> pystr list \<Rightarrow> bool" where
  "text_line lib line strs =
     (\<not> skipped_line lib line
      \<and> (\<exists>x payload extra rest inner c0 crest cands.
            json_loads lib (strip lib line)
              = Inr (JArr (JArr (JStr (ascii ''wrb.fr'') # x # JStr payload # extra) # rest))
            \<and> \<not> is_citation_status (JStr (ascii ''wrb.fr'') # x # JStr payload # extra)
            \<and> payload \<noteq> []
            \<and> json_loads lib payload = Inr (JArr inner)
            \<and> length inner > 4
            \<and> inner ! 4 = JArr (JArr (c0 # JArr (map JStr strs) # crest) # cands))
      \<and> strs \<noteq> []
      \<and> strip lib (concat strs) \<noteq> [])"

definition reply_payload :: "pystr list \<Rightarrow> json" where
  "reply_payload parts =
     JArr [JNull, JArr [JStr (ascii ''c_1''), JStr (ascii ''r_1'')], JNull, JNull,
           JArr [JArr [JStr (ascii ''rc_1''), JArr (map JStr parts)]]]"

definition wrb_entry :: "pystr \<Rightarrow> json list \<Rightarrow> json" where
  "wrb_entry payload extra = JArr [JArr (JStr (ascii ''wrb.fr'') # JNull # JStr payload # extra)]"

definition reply_lib :: pylib where
  "reply_lib =
     table_lib
       [(ascii ''line1'', wrb_entry (ascii ''pay1'') []),
        (ascii ''pay1'', reply_payload [ascii '' Hello'', ascii '' world '']),
        (ascii ''line2'', wrb_entry (ascii ''pay2'') []),
        (ascii ''pay2'', reply_payload [ascii ''Hi'']),
        (ascii ''line3'', wrb_entry (ascii ''pay2'') [JNull, JNull, JArr [JInt 9]]),
        (ascii ''line4'', wrb_entry (ascii ''pay4'') []),
        (ascii ''pay4'', reply_payload [ascii ''  ''])] []"

definition reply_body :: pystr where
  "reply_body = ascii '')]}'' @ [39, 10] @ ascii ''line1''"




text \<open>
  An identifier the debug messages can print: a string or a list, or a value that counts
  as false (for which \<open>'None'\<close> or the empty string is printed). \<open>debug_ok\<close>: with
  \<open>debug\<close> on, the three identifiers can be printed; strings, as the client annotates
  them, always can.
\<close>

definition printable_id :: "json \<Rightarrow> bool" where
  "printable_id v = (case v of JStr s \<Rightarrow> True | JArr xs \<Rightarrow> True | _ \<Rightarrow> \<not> truthy v)"

definition debug_ok :: "client \<Rightarrow> bool" where
  "debug_ok c =
     (\<not> debug c
      \<or> (printable_id (conversation_id c) \<and> printable_id (response_id c)
          \<and> printable_id (choice_id c)))"

text \<open>
  A client in a conversation, with \<open>debug\<close> on: the inner array it sends for the text
  "hi", and a codec for that array and the array around it. A library whose decoder
  gives a response with a number where the conversation id is expected.
\<close>

definition session_client :: client where
  "session_client =
     sample_client\<lparr>debug := True, conversation_id := JStr (ascii ''c_1a''),
        response_id := JStr (ascii ''r_2b''), choice_id := JStr (ascii ''rc_3c'')\<rparr>"

definition session_inner :: json where
  "session_inner =
     inner_data session_client (ascii ''hi'') JNull
       (ascii ''0F8FAD5B-D9CB-469F-A165-70867728950E'') 1700000000000"

definition session_lib :: pylib where
  "session_lib =
     table_lib
       [(ascii ''I'', session_inner), (ascii ''O'', JArr [JNull, JStr (ascii ''I'')])]
       [(session_inner, ascii ''I''), (JArr [JNull, JStr (ascii ''I'')], ascii ''O'')]"








section \<open>Properties of the API key check\<close>

lemma ascii_Bearer_length: "length (ascii ''Bearer '') = 7"
  by (simp add: ascii_def)

lemma API_KEY_nonempty: "API_KEY \<noteq> []"
  by (simp add: API_KEY_def ascii_def)

lemma bearer_shape:
  "(a \<noteq> [] \<and> startswith a (ascii ''Bearer '') \<and> drop 7 a = key) \<longleftrightarrow>
   a = ascii ''Bearer '' @ key"
proof
  assume h: "a \<noteq> [] \<and> startswith a (ascii ''Bearer '') \<and> drop 7 a = key"
  then have "take 7 a = ascii ''Bearer ''"
    by (simp add: startswith_def ascii_Bearer_length)
  moreover have "a = take 7 a @ drop 7 a"
    by simp
  ultimately show "a = ascii ''Bearer '' @ key"
    using h by metis
next
  assume "a = ascii ''Bearer '' @ key"
  then show "a \<noteq> [] \<and> startswith a (ascii ''Bearer '') \<and> drop 7 a = key"
    by (simp add: startswith_def ascii_def)
qed

text \<open>
  C10. The check raises the HTTP error 401 "Invalid API key" exactly when the
  Authorization header is not the string "Bearer " followed by the configured key,
  and returns True otherwise; the configured key is not empty, so the branch that
  would skip the check is never taken; a guarded endpoint fails with that error
  under the same condition and runs its body otherwise.
\<close>

theorem verify_api_key_iff:
  "(verify_api_key authorization = Inl (HTTPException 401 (ascii ''Invalid API key''))
      \<longleftrightarrow> authorization \<noteq> Some (ascii ''Bearer '' @ API_KEY))
   \<and> (verify_api_key authorization = Inr True
      \<longleftrightarrow> authorization = Some (ascii ''Bearer '' @ API_KEY))
   \<and> API_KEY = ascii ''sk-gemini'' \<and> API_KEY \<noteq> []
   \<and> guarded authorization handler =
       (if authorization = Some (ascii ''Bearer '' @ API_KEY) then Inr handler
        else Inl (HTTPException 401 (ascii ''Invalid API key'')))"
proof -
  have v: "verify_api_key authorization =
      (if authorization = Some (ascii ''Bearer '' @ API_KEY) then Inr True
       else Inl (HTTPException 401 (ascii ''Invalid API key'')))"
  proof (cases authorization)
    case None
    then show ?thesis
      by (simp add: verify_api_key_def verify_api_key_with_def API_KEY_nonempty)
  next
    case (Some a)
    show ?thesis
      using bearer_shape [of a API_KEY] Some
      by (auto simp add: verify_api_key_def verify_api_key_with_def API_KEY_nonempty)
  qed
  show ?thesis
    by (simp add: v guarded_def API_KEY_nonempty) (simp add: API_KEY_def)
qed

theorem verify_api_key_iff_witness:
  "verify_api_key (Some (ascii ''Bearer sk-gemini'')) = Inr True
   \<and> verify_api_key (Some (ascii ''Bearer sk-other''))
       = Inl (HTTPException 401 (ascii ''Invalid API key''))
   \<and> verify_api_key (Some (ascii ''sk-gemini''))
       = Inl (HTTPException 401 (ascii ''Invalid API key''))
   \<and> verify_api_key None = Inl (HTTPException 401 (ascii ''Invalid API key''))"
  using verify_api_key_iff [of "Some (ascii ''Bearer sk-gemini'')" "()"]
        verify_api_key_iff [of "Some (ascii ''Bearer sk-other'')" "()"]
        verify_api_key_iff [of "Some (ascii ''sk-gemini'')" "()"]
        verify_api_key_iff [of None "()"]
  by (simp add: API_KEY_def ascii_def)

section \<open>Properties of the history bound\<close>

lemma keep_count_of_even: "keep_count_of m mod 2 = 0"
  unfolding keep_count_of_def by presburger

lemma keep_count_of_bounds: "keep_count_of m \<le> m \<and> m - 1 \<le> keep_count_of m"
  unfolding keep_count_of_def by simp

lemma py_slice_from_suffix: "\<exists>ys. xs = ys @ py_slice_from i xs"
proof -
  have "\<exists>n. py_slice_from i xs = drop n xs"
    unfolding py_slice_from_def by auto
  then obtain n where "py_slice_from i xs = drop n xs" ..
  then have "xs = take n xs @ py_slice_from i xs" by simp
  then show ?thesis ..
qed

lemma py_slice_from_last:
  "0 < k \<Longrightarrow> k \<le> int (length xs) \<Longrightarrow> int (length (py_slice_from (- k) xs)) = k"
  unfolding py_slice_from_def by simp

text \<open>
  With a bound of at least 2 the block does what its comments say: the history has at
  most \<open>max_history_messages\<close> entries afterwards, they are the most recent ones, and
  after a truncation their number is even.
\<close>

lemma limit_history_bounded:
  assumes "2 \<le> max_history_messages c"
  shows "int (length (messages (limit_history c))) \<le> max_history_messages c"
    and "\<exists>older. messages c = older @ messages (limit_history c)"
    and "limit_history c \<noteq> c \<Longrightarrow> int (length (messages (limit_history c))) mod 2 = 0"
proof -
  let ?m = "max_history_messages c"
  let ?k = "keep_count_of ?m"
  have k: "0 < ?k" "?k \<le> ?m" "?k mod 2 = 0"
    using assms keep_count_of_bounds [of ?m] keep_count_of_even [of ?m] by auto
  show "int (length (messages (limit_history c))) \<le> ?m"
  proof (cases "int (length (messages c)) > ?m")
    case True
    then have "int (length (py_slice_from (- ?k) (messages c))) = ?k"
      using k py_slice_from_last [of ?k "messages c"] by simp
    then show ?thesis using True k by (simp add: limit_history_def)
  next
    case False
    then show ?thesis by (simp add: limit_history_def)
  qed
  show "\<exists>older. messages c = older @ messages (limit_history c)"
    using py_slice_from_suffix [of "messages c" "- ?k"]
    by (auto simp add: limit_history_def)
  show "int (length (messages (limit_history c))) mod 2 = 0" if "limit_history c \<noteq> c"
  proof -
    from that have gt: "int (length (messages c)) > ?m"
      by (auto simp add: limit_history_def split: if_splits)
    then have "int (length (py_slice_from (- ?k) (messages c))) = ?k"
      using k py_slice_from_last [of ?k "messages c"] by simp
    then show ?thesis using gt k by (simp add: limit_history_def)
  qed
qed

text \<open>
  C8. With \<open>max_history_messages = 1\<close> the bound fails: \<open>keep_count\<close> becomes 0 and
  \<open>self.messages[-0:]\<close> is the whole list. After the intake of three messages by
  \<open>chat\<close>, and after \<open>_load_session_state\<close> on a file with three messages, the history
  holds three messages, an odd number above the bound.
\<close>

theorem history_not_bounded_when_max_is_one:
  "(case chat_intake (scripted_env []) (table_lib [] [])
           (sample_client\<lparr>max_history_messages := 1\<rparr>)
           (Some [user_message (JStr (ascii ''a'')), assistant_message (JStr (ascii ''b'')),
                  user_message (JStr (ascii ''c''))])
           None None None False new_world of
      (c', w', r) \<Rightarrow> length (messages c') = 3 \<and> max_history_messages c' = 1
                       \<and> r = Inr (ascii ''c'', []))
   \<and> length (messages
        (load_session_state
           (table_lib
              [(ascii ''saved'',
                JObj [(ascii ''messages'',
                       JArr [JObj (user_message (JStr (ascii ''a''))),
                             JObj (assistant_message (JStr (ascii ''b''))),
                             JObj (user_message (JStr (ascii ''c'')))])])] [])
           (FileText (ascii ''saved''))
           (sample_client\<lparr>max_history_messages := 1\<rparr>))) = 3"
  by (simp add: chat_intake_def user_message_def assistant_message_def dict_get_def
      parse_content_def sample_client_def limit_history_def keep_count_of_def
      py_slice_from_def ascii_def Let_def load_session_state_def load_state_def table_lib_def)

section \<open>Properties of the upload\<close>

lemma trace_send: "trace (fst (send e r w)) = trace w @ [r]"
  by (simp add: send_def)

lemma send_eq: "send e r w = (w\<lparr>trace := trace w @ [r]\<rparr>, net e (trace w) r)"
  by (simp add: send_def)

lemma upload_command_init:
  "map_of (req_headers (init_request lib pid filename image_data)) (ascii ''x-goog-upload-command'')
     = Some (ascii ''start'')"
  by (simp add: init_request_def browser_headers_def ascii_def)

lemma upload_command_data:
  "map_of (req_headers (upload_request pid upload_id mime image_data)) (ascii ''x-goog-upload-command'')
     = Some (ascii ''upload, finalize'')"
  by (simp add: upload_request_def browser_headers_def ascii_def)

lemma upload_image_unset:
  "unset (push_id c) \<Longrightarrow> upload_image e lib c image_data mime w = (w, Inl CookieExpiredError)"
  by (simp add: upload_image_def)

lemma upload_image_steps:
  assumes "\<not> unset (push_id c)"
  shows "(case upload_image e lib c image_data mime w of (w', r) \<Rightarrow>
           (case net e (trace w) (first_request e lib c image_data w) of
              Inl ex \<Rightarrow> trace w' = trace w @ [first_request e lib c image_data w]
                         \<and> r = Inl (upload_handlers ex)
            | Inr init_resp \<Rightarrow>
                if resp_status init_resp = 401 \<or> resp_status init_resp = 403
                   \<or> unset (resp_headers init_resp (ascii ''x-guploader-uploadid''))
                then trace w' = trace w @ [first_request e lib c image_data w]
                     \<and> r = Inl CookieExpiredError
                else trace w' = trace w @ [first_request e lib c image_data w,
                        upload_request (the (push_id c))
                          (the (resp_headers init_resp (ascii ''x-guploader-uploadid''))) mime image_data]))"
  using assms unfolding first_request_def
  by (auto simp add: upload_image_def Let_def send_eq draw_def upload_handlers_def split: sum.splits prod.splits)


text \<open>
  C7. \<open>_upload_image\<close> sends at most two requests, in this order: the initialization
  request, with command \<open>start\<close>, to the upload URL; then the data request, with
  command \<open>upload, finalize\<close>. The data request is sent only after the initialization
  was answered with a non-empty \<open>x-guploader-uploadid\<close> header, and its URL carries
  that id. When the answer has no such header the result is CookieExpiredError and the
  initialization request is the only one sent. Without \<open>push_id\<close> nothing is sent.
\<close>

theorem upload_image_two_steps:
  "(case upload_image e lib c image_data mime w of (w', r) \<Rightarrow>
      if unset (push_id c) then w' = w \<and> r = Inl CookieExpiredError
      else
        (let req0 = first_request e lib c image_data w
         in map_of (req_headers req0) (ascii ''x-goog-upload-command'') = Some (ascii ''start'')
            \<and> url req0 = upload_url
            \<and> (trace w' = trace w @ [req0]
                \<or> (\<exists>init_resp upload_id.
                      net e (trace w) req0 = Inr init_resp
                      \<and> resp_headers init_resp (ascii ''x-guploader-uploadid'') = Some upload_id
                      \<and> upload_id \<noteq> []
                      \<and> trace w' = trace w @
                            [req0, upload_request (the (push_id c)) upload_id mime image_data]
                      \<and> url (upload_request (the (push_id c)) upload_id mime image_data)
                           = upload_url @ ascii ''?upload_id='' @ upload_id
                               @ ascii ''&upload_protocol=resumable''
                      \<and> map_of (req_headers (upload_request (the (push_id c)) upload_id mime
                                    image_data)) (ascii ''x-goog-upload-command'')
                           = Some (ascii ''upload, finalize'')))
            \<and> ((\<exists>init_resp. net e (trace w) req0 = Inr init_resp
                    \<and> unset (resp_headers init_resp (ascii ''x-guploader-uploadid'')))
                 \<longrightarrow> r = Inl CookieExpiredError \<and> trace w' = trace w @ [req0])))"
proof (cases "unset (push_id c)")
  case True
  then show ?thesis by (simp add: upload_image_unset)
next
  case False
  obtain w' r where res: "upload_image e lib c image_data mime w = (w', r)"
    by (cases "upload_image e lib c image_data mime w")
  let ?req0 = "first_request e lib c image_data w"
  have cmd: "map_of (req_headers ?req0) (ascii ''x-goog-upload-command'') = Some (ascii ''start'')"
    by (simp add: first_request_def upload_command_init)
  have u: "url ?req0 = upload_url"
    by (simp add: first_request_def init_request_def)
  have steps: "(case net e (trace w) ?req0 of
              Inl ex \<Rightarrow> trace w' = trace w @ [?req0] \<and> r = Inl (upload_handlers ex)
            | Inr init_resp \<Rightarrow>
                if resp_status init_resp = 401 \<or> resp_status init_resp = 403
                   \<or> unset (resp_headers init_resp (ascii ''x-guploader-uploadid''))
                then trace w' = trace w @ [?req0] \<and> r = Inl CookieExpiredError
                else trace w' = trace w @ [?req0,
                        upload_request (the (push_id c))
                          (the (resp_headers init_resp (ascii ''x-guploader-uploadid''))) mime image_data])"
    using upload_image_steps [OF False, where e = e and lib = lib and image_data = image_data and mime = mime and w = w] res by simp
  have seq: "trace w' = trace w @ [?req0]
         \<or> (\<exists>init_resp upload_id.
                      net e (trace w) ?req0 = Inr init_resp
                      \<and> resp_headers init_resp (ascii ''x-guploader-uploadid'') = Some upload_id
                      \<and> upload_id \<noteq> []
                      \<and> trace w' = trace w @
                            [?req0, upload_request (the (push_id c)) upload_id mime image_data]
                      \<and> url (upload_request (the (push_id c)) upload_id mime image_data)
                           = upload_url @ ascii ''?upload_id='' @ upload_id
                               @ ascii ''&upload_protocol=resumable''
                      \<and> map_of (req_headers (upload_request (the (push_id c)) upload_id mime
                                    image_data)) (ascii ''x-goog-upload-command'')
                           = Some (ascii ''upload, finalize''))"
  proof (cases "net e (trace w) ?req0")
    case (Inl ex)
    then show ?thesis using steps by simp
  next
    case (Inr init_resp)
    show ?thesis
    proof (cases "resp_status init_resp = 401 \<or> resp_status init_resp = 403
                   \<or> unset (resp_headers init_resp (ascii ''x-guploader-uploadid''))")
      case True
      then show ?thesis using steps Inr by simp
    next
      case ok: False
      then obtain upload_id where
        h: "resp_headers init_resp (ascii ''x-guploader-uploadid'') = Some upload_id" "upload_id \<noteq> []"
        by (auto simp add: unset_def split: option.splits)
      have "trace w' = trace w @ [?req0, upload_request (the (push_id c)) upload_id mime image_data]"
        using steps Inr ok h by simp
      moreover have "url (upload_request (the (push_id c)) upload_id mime image_data)
                           = upload_url @ ascii ''?upload_id='' @ upload_id
                               @ ascii ''&upload_protocol=resumable''"
        by (simp add: upload_request_def final_upload_url_def)
      ultimately show ?thesis using Inr h upload_command_data by blast
    qed
  qed
  have absent: "(\<exists>init_resp. net e (trace w) ?req0 = Inr init_resp
                    \<and> unset (resp_headers init_resp (ascii ''x-guploader-uploadid'')))
                 \<longrightarrow> r = Inl CookieExpiredError \<and> trace w' = trace w @ [?req0]"
    using steps by auto
  show ?thesis
    using False res cmd u seq absent by (simp add: Let_def)
qed


theorem upload_image_two_steps_witness:
  "(case upload_image
           (scripted_env [Inr (ok_response [] [])])
           (table_lib [] []) (sample_client\<lparr>push_id := Some (ascii ''feeds/abc'')\<rparr>)
           [1, 2, 3] (ascii ''image/png'') new_world of
      (w', r) \<Rightarrow> r = Inl CookieExpiredError \<and> length (trace w') = 1)
   \<and> (case upload_image
           (scripted_env [Inr (ok_response [(ascii ''x-guploader-uploadid'', ascii ''UID7'')] []),
                          Inr (ok_response [] (ascii ''J''))])
           (table_lib [(ascii ''J'', JArr [JStr sample_path])] [])
           (sample_client\<lparr>push_id := Some (ascii ''feeds/abc'')\<rparr>)
           [1, 2, 3] (ascii ''image/png'') new_world of
      (w', r) \<Rightarrow> r = Inr sample_path \<and> length (trace w') = 2
         \<and> url (trace w' ! 1) = upload_url @ ascii ''?upload_id=UID7&upload_protocol=resumable'')"
proof -
  let ?e = "scripted_env [Inr (ok_response [] [])]"
  let ?lib = "table_lib [] []"
  let ?c = "sample_client\<lparr>push_id := Some (ascii ''feeds/abc'')\<rparr>"
  let ?req0 = "first_request ?e ?lib ?c [1, 2, 3] new_world"
  have given: "\<not> unset (push_id ?c)"
    by (simp add: sample_client_def unset_def ascii_def)
  have absent: "\<exists>init_resp. net ?e (trace new_world) ?req0 = Inr init_resp
                  \<and> unset (resp_headers init_resp (ascii ''x-guploader-uploadid''))"
    by (simp add: scripted_env_def new_world_def ok_response_def unset_def)
  obtain w' r where
    res: "upload_image ?e ?lib ?c [1, 2, 3] (ascii ''image/png'') new_world = (w', r)"
    by (cases "upload_image ?e ?lib ?c [1, 2, 3] (ascii ''image/png'') new_world")
  have "r = Inl CookieExpiredError \<and> trace w' = trace new_world @ [?req0]"
    using upload_image_two_steps [where e = ?e and lib = ?lib and c = ?c
           and image_data = "[1, 2, 3]" and mime = "ascii ''image/png''" and w = new_world]
          res given absent
    by (simp add: Let_def)
  then have first: "(case upload_image ?e ?lib ?c [1, 2, 3] (ascii ''image/png'') new_world of
      (w', r) \<Rightarrow> r = Inl CookieExpiredError \<and> length (trace w') = 1)"
    using res by (simp add: new_world_def)
  have second: "(case upload_image
           (scripted_env [Inr (ok_response [(ascii ''x-guploader-uploadid'', ascii ''UID7'')] []),
                          Inr (ok_response [] (ascii ''J''))])
           (table_lib [(ascii ''J'', JArr [JStr sample_path])] [])
           (sample_client\<lparr>push_id := Some (ascii ''feeds/abc'')\<rparr>)
           [1, 2, 3] (ascii ''image/png'') new_world of
      (w', r) \<Rightarrow> r = Inr sample_path \<and> length (trace w') = 2
         \<and> url (trace w' ! 1) = upload_url @ ascii ''?upload_id=UID7&upload_protocol=resumable'')"
    by (simp add: upload_image_def Let_def send_def draw_def scripted_env_def ok_response_def
        sample_client_def new_world_def unset_def image_path_of_def table_lib_def
        upload_request_def final_upload_url_def sample_path_def startswith_def ascii_def)
  from first second show ?thesis by (rule conjI)
qed

section \<open>Properties of the senders\<close>

lemma upload_url_not_chat_url: "upload_url @ x \<noteq> chat_url"
  by (simp add: upload_url_def chat_url_def BASE_URL_def ascii_def)

lemma url_init_request: "url (init_request lib pid filename image_data) \<noteq> chat_url"
  using upload_url_not_chat_url [of "[]"] by (simp add: init_request_def)

lemma url_upload_request: "url (upload_request pid upload_id mime image_data) \<noteq> chat_url"
  using upload_url_not_chat_url by (simp add: upload_request_def final_upload_url_def)

lemma upload_image_trace:
  "\<exists>new. trace (fst (upload_image e lib c image_data mime w)) = trace w @ new
         \<and> (\<forall>req \<in> set new. url req \<noteq> chat_url)"
proof (cases "unset (push_id c)")
  case True
  then show ?thesis by (simp add: upload_image_unset)
next
  case False
  obtain w' r where res: "upload_image e lib c image_data mime w = (w', r)"
    by (cases "upload_image e lib c image_data mime w")
  have "trace w' = trace w @ [first_request e lib c image_data w]
        \<or> (\<exists>uid. trace w' = trace w @ [first_request e lib c image_data w,
                 upload_request (the (push_id c)) uid mime image_data])"
    using upload_image_steps [OF False, where e = e and lib = lib and image_data = image_data
        and mime = mime and w = w] res
    by (auto split: sum.splits if_splits)
  then show ?thesis
    using res url_init_request url_upload_request
    by (auto simp add: first_request_def)
qed

lemma upload_images_trace:
  "\<exists>new. trace (fst (upload_images e lib c imgs w)) = trace w @ new
         \<and> (\<forall>req \<in> set new. url req \<noteq> chat_url)"
proof (induction imgs arbitrary: w)
  case Nil
  then show ?case by simp
next
  case (Cons img imgs)
  show ?case
  proof (cases "b64decode lib (data img)")
    case (Inl ex)
    then show ?thesis by simp
  next
    case (Inr img_data)
    obtain w1 r1 where u: "upload_image e lib c img_data (mime_type img) w = (w1, r1)"
      by (cases "upload_image e lib c img_data (mime_type img) w")
    obtain new1 where n1: "trace w1 = trace w @ new1" "\<forall>req \<in> set new1. url req \<noteq> chat_url"
      using upload_image_trace [of e lib c img_data "mime_type img" w] u by auto
    show ?thesis
    proof (cases r1)
      case (Inl ex)
      then show ?thesis using Inr u n1 by simp
    next
      case path: (Inr path)
      obtain w2 r2 where v: "upload_images e lib c imgs w1 = (w2, r2)"
        by (cases "upload_images e lib c imgs w1")
      obtain new2 where n2: "trace w2 = trace w1 @ new2" "\<forall>req \<in> set new2. url req \<noteq> chat_url"
        using Cons.IH [of w1] v by auto
      have "trace (fst (upload_images e lib c (img # imgs) w)) = trace w2"
        using Inr u path v by (simp split: sum.splits)
      then have "trace (fst (upload_images e lib c (img # imgs) w)) = trace w @ (new1 @ new2)"
        using n1 n2 by simp
      moreover have "\<forall>req \<in> set (new1 @ new2). url req \<noteq> chat_url"
        using n1 n2 by auto
      ultimately show ?thesis by blast
    qed
  qed
qed

lemma trace_draw: "trace (draw w) = trace w"
  by (simp add: draw_def)

lemma request_image_data_trace:
  "trace (fst (request_image_data e lib images image_paths w)) = trace w"
  by (simp add: request_image_data_def Let_def trace_draw split: option.splits list.splits)

lemma build_inner_trace:
  "trace (fst (build_inner e lib c tx images image_paths w)) = trace w"
  using request_image_data_trace [of e lib images image_paths w]
  by (cases "request_image_data e lib images image_paths w")
     (simp add: build_inner_def Let_def trace_draw)

lemma id_preview_printable:
  "(\<exists>shown. id_preview lib (py_or v (JStr [])) n = Inr shown) = printable_id v"
  by (cases v) (simp_all add: id_preview_def py_or_def printable_id_def)

lemma build_debug_message_printable:
  "(\<exists>shown. build_debug_message lib c = Inr shown)
     = (printable_id (conversation_id c) \<and> printable_id (response_id c)
        \<and> printable_id (choice_id c))"
  using id_preview_printable [of lib "conversation_id c" 40]
        id_preview_printable [of lib "response_id c" 40]
        id_preview_printable [of lib "choice_id c" 40]
  unfolding build_debug_message_def
  by (auto split: sum.splits)

lemma build_request_data_ok:
  assumes "debug_ok c"
  shows "build_request_data e lib c tx images image_paths model url_context tools w
     = (fst (build_inner e lib c tx images image_paths w),
        Inr (json_dumps lib (JArr [JNull,
          JStr (json_dumps lib (snd (build_inner e lib c tx images image_paths w)))])))"
proof -
  have "\<exists>shown. (if debug c then build_debug_message lib c else Inr []) = Inr shown"
    using assms build_debug_message_printable [of lib c] by (auto simp add: debug_ok_def)
  then obtain shown where "(if debug c then build_debug_message lib c else Inr []) = Inr shown"
    by blast
  then show ?thesis
    by (cases "build_inner e lib c tx images image_paths w")
       (simp add: build_request_data_def Let_def)
qed

lemma build_request_data_raises:
  assumes "\<not> debug_ok c"
  shows "\<exists>ex. build_request_data e lib c tx images image_paths model url_context tools w
     = (w, Inl ex)"
proof -
  have d: "debug c" and "\<not> (\<exists>shown. build_debug_message lib c = Inr shown)"
    using assms build_debug_message_printable [of lib c] by (auto simp add: debug_ok_def)
  then obtain ex where "build_debug_message lib c = Inl ex"
    by (cases "build_debug_message lib c") auto
  then show ?thesis
    using d by (simp add: build_request_data_def)
qed

lemma build_request_data_returns:
  assumes "build_request_data e lib c tx images image_paths model url_context tools w
     = (w', Inr req_data)"
  shows "debug_ok c
     \<and> w' = fst (build_inner e lib c tx images image_paths w)
     \<and> req_data = json_dumps lib (JArr [JNull,
          JStr (json_dumps lib (snd (build_inner e lib c tx images image_paths w)))])"
proof (cases "debug_ok c")
  case True
  then show ?thesis
    using assms build_request_data_ok [of c e lib tx images image_paths model url_context tools w]
    by simp
next
  case False
  then show ?thesis
    using assms build_request_data_raises [of c e lib tx images image_paths model url_context tools w]
    by auto
qed

lemma build_request_data_trace:
  "trace (fst (build_request_data e lib c tx images image_paths model url_context tools w)) = trace w"
proof (cases "debug_ok c")
  case True
  then show ?thesis by (simp add: build_request_data_ok build_inner_trace)
next
  case False
  then show ?thesis
    using build_request_data_raises [of c e lib tx images image_paths model url_context tools w]
    by auto
qed

lemma build_inner_inner_data:
  "\<exists>image_data session_id timestamp.
     snd (build_inner e lib c tx images image_paths w)
       = inner_data c tx image_data session_id timestamp"
proof (cases "request_image_data e lib images image_paths w")
  case (Pair w1 image_data)
  then have "snd (build_inner e lib c tx images image_paths w)
       = inner_data c tx image_data (uuid4 e (draws w1)) (time_ms e (draws (draw w1)))"
    by (simp add: build_inner_def Let_def)
  then show ?thesis by blast
qed

lemma build_request_data_shape:
  assumes "build_request_data e lib c tx images image_paths model url_context tools w
     = (w', Inr req_data)"
  shows "\<exists>image_data session_id timestamp.
     req_data = json_dumps lib (JArr [JNull,
           JStr (json_dumps lib (inner_data c tx image_data session_id timestamp))])"
proof -
  obtain image_data session_id timestamp where
    "snd (build_inner e lib c tx images image_paths w)
       = inner_data c tx image_data session_id timestamp"
    using build_inner_inner_data [of e lib c tx images image_paths w] by blast
  then have "req_data = json_dumps lib (JArr [JNull,
           JStr (json_dumps lib (inner_data c tx image_data session_id timestamp))])"
    using build_request_data_returns [OF assms] by simp
  then show ?thesis by blast
qed

lemma inner_data_shape:
  "\<exists>inner. inner_data c text image_data session_id timestamp = JArr inner
     \<and> length inner = 67
     \<and> inner ! 0 = JArr [JStr text, JInt 0, JNull, image_data, JNull, JNull, JInt 0]
     \<and> inner ! 2 = JArr [py_or (conversation_id c) (JStr []), py_or (response_id c) (JStr []),
                          py_or (choice_id c) (JStr []),
                          JNull, JNull, JNull, JNull, JNull, JNull, JStr []]
     \<and> inner ! 3 = (case snlm0e c of None \<Rightarrow> JNull | Some tok \<Rightarrow> JStr tok)"
  by (simp add: inner_data_def Let_def)

lemma update_context_snlm0e:
  "update_context inner_json c = Inr c' \<Longrightarrow> snlm0e c' = snlm0e c"
  unfolding update_context_def save_session_state_def Let_def
  by (auto split: sum.splits json.splits if_splits)

lemma accept_text_snlm0e:
  "accept_text text candidate (c, ft) = Inr (c', t) \<Longrightarrow> snlm0e c' = snlm0e c"
  unfolding accept_text_def save_session_state_def Let_def
  by (auto split: sum.splits if_splits)

lemma try_line_snlm0e: "snlm0e (fst (try_line lib line (c, ft))) = snlm0e c"
  unfolding try_line_def
  by (auto split: sum.splits option.splits prod.splits
      dest!: update_context_snlm0e accept_text_snlm0e)

lemma process_line_snlm0e: "snlm0e (fst (process_line lib st line)) = snlm0e (fst st)"
proof (cases st)
  case (Pair c ft)
  show ?thesis
    using try_line_snlm0e [of lib "strip lib line" c ft]
    by (auto simp add: process_line_def Pair split: prod.splits sum.splits)
qed

lemma foldl_process_line_snlm0e:
  "snlm0e (fst (foldl (process_line lib) st ls)) = snlm0e (fst st)"
  by (induction ls arbitrary: st) (simp_all add: process_line_snlm0e)

lemma parse_response_snlm0e: "snlm0e (fst (parse_response lib tx c)) = snlm0e c"
  using foldl_process_line_snlm0e [of lib "(c, [])" "split_lines tx"]
  by (cases "foldl (process_line lib) (c, []) (split_lines tx)")
     (simp add: parse_response_def)

lemma stream_update_context_snlm0e:
  "stream_update_context inner_json c = Inr c' \<Longrightarrow> snlm0e c' = snlm0e c"
  unfolding stream_update_context_def Let_def
  by (auto split: sum.splits json.splits if_splits)

lemma stream_try_line_snlm0e:
  "snlm0e (fst (stream_try_line lib line st)) = snlm0e (fst st)"
  unfolding stream_try_line_def Let_def
  by (auto split: sum.splits option.splits prod.splits dest: stream_update_context_snlm0e)

lemma stream_line_snlm0e: "snlm0e (fst (stream_line lib st line)) = snlm0e (fst st)"
  by (simp add: stream_line_def stream_try_line_snlm0e)

lemma foldl_stream_line_snlm0e:
  "snlm0e (fst (foldl (stream_line lib) st ls)) = snlm0e (fst st)"
  by (induction ls arbitrary: st) (simp_all add: stream_line_snlm0e)

lemma extends_with_refl: "trace w' = trace w \<Longrightarrow> extends_with P w w'"
  by (simp add: extends_with_def)

lemma extends_with_trans:
  "extends_with P w w1 \<Longrightarrow> extends_with P w1 w2 \<Longrightarrow> extends_with P w w2"
  unfolding extends_with_def by (metis UnE append.assoc set_append)


lemma extends_with_mono:
  "extends_with P w w' \<Longrightarrow> (\<And>req. P req \<Longrightarrow> Q req) \<Longrightarrow> extends_with Q w w'"
  unfolding extends_with_def by blast

lemma upload_images_extends:
  "extends_with (\<lambda>req. url req \<noteq> chat_url) w (fst (upload_images e lib c imgs w))"
  using upload_images_trace [of e lib c imgs w] by (simp add: extends_with_def)

lemma chat_request_token:
  assumes "build_request_data e lib c tx images image_paths model url_context tools w
     = (w', Inr req_data)"
  shows "token_request lib (snlm0e c) (chat_request ps req_data c)"
proof -
  obtain image_data session_id timestamp where
    d: "req_data = json_dumps lib (JArr [JNull,
           JStr (json_dumps lib (inner_data c tx image_data session_id timestamp))])"
    using build_request_data_shape [OF assms] by blast
  obtain inner where
    i: "inner_data c tx image_data session_id timestamp = JArr inner" "length inner = 67"
       "inner ! 3 = (case snlm0e c of None \<Rightarrow> JNull | Some tok \<Rightarrow> JStr tok)"
    using inner_data_shape [of c tx image_data session_id timestamp] by blast
  show ?thesis
    unfolding token_request_def using d i
    by (auto simp add: chat_request_def ascii_def)
qed

lemma post_chat_trace:
  "trace (fst (post_chat e lib c ps req_data w)) = trace w @ [chat_request ps req_data c]"
  by (simp add: post_chat_def send_def split: sum.splits)

lemma post_chat_extends:
  assumes "P (chat_request ps req_data c)"
  shows "extends_with P w (fst (post_chat e lib c ps req_data w))"
  using assms by (simp add: extends_with_def post_chat_trace)

lemma upload_images_sender:
  "extends_with (sender_request lib tok) w (fst (upload_images e lib c imgs w))"
  by (rule extends_with_mono [OF upload_images_extends]) (simp add: sender_request_def)

lemma stream_image_paths_extends:
  "extends_with (sender_request lib tok) w (fst (stream_image_paths e lib c images image_paths w))"
proof -
  have same: "extends_with (sender_request lib tok) w w"
    by (rule extends_with_refl) simp
  show ?thesis
  proof (cases image_paths)
    case (Some given)
    then show ?thesis using same by (simp add: stream_image_paths_def)
  next
    case None
    show ?thesis
    proof (cases images)
      case no: None
      then show ?thesis using None same by (simp add: stream_image_paths_def)
    next
      case (Some imgs)
      show ?thesis
      proof (cases imgs)
        case Nil
        then show ?thesis using None Some same by (simp add: stream_image_paths_def)
      next
        case (Cons img rest)
        obtain w' r where u: "upload_images e lib c (img # rest) w = (w', r)"
          by (cases "upload_images e lib c (img # rest) w")
        have "extends_with (sender_request lib tok) w w'"
          using upload_images_sender [where e = e and lib = lib and c = c and imgs = "img # rest"
              and w = w and tok = tok] u
          by simp
        then show ?thesis
          using None Some Cons same u
          by (simp add: stream_image_paths_def del: upload_images.simps split: sum.splits)
      qed
    qed
  qed
qed

lemma request_image_paths_extends:
  "extends_with (sender_request lib tok) w (fst (request_image_paths e lib c images w))"
proof -
  have same: "extends_with (sender_request lib tok) w w"
    by (rule extends_with_refl) simp
  show ?thesis
  proof (cases images)
    case None
    then show ?thesis using same by (simp add: request_image_paths_def)
  next
    case (Some imgs)
    show ?thesis
    proof (cases imgs)
      case Nil
      then show ?thesis using Some same by (simp add: request_image_paths_def)
    next
      case (Cons img rest)
      obtain w' r where u: "upload_images e lib c (img # rest) w = (w', r)"
        by (cases "upload_images e lib c (img # rest) w")
      have "extends_with (sender_request lib tok) w w'"
        using upload_images_sender [where e = e and lib = lib and c = c and imgs = "img # rest"
            and w = w and tok = tok] u
        by simp
      then show ?thesis
        using Some Cons same u
        by (simp add: request_image_paths_def del: upload_images.simps split: sum.splits)
    qed
  qed
qed

lemma send_stream_request_extends:
  "extends_with (sender_request lib (snlm0e c)) w
     (fst (snd (send_stream_request e lib c tx images model url_context tools image_paths w)))
   \<and> snlm0e (fst (send_stream_request e lib c tx images model url_context tools image_paths w))
       = snlm0e c"
proof -
  let ?P = "sender_request lib (snlm0e c)"
  define ps where "ps = request_params e lib c w"
  obtain w1 pr where ph: "stream_image_paths e lib c images image_paths (draw w) = (w1, pr)"
    by (cases "stream_image_paths e lib c images image_paths (draw w)")
  have e1: "extends_with ?P w w1"
  proof -
    have "extends_with ?P w (draw w)"
      by (rule extends_with_refl) (rule trace_draw)
    moreover have "extends_with ?P (draw w) w1"
      using stream_image_paths_extends [where lib = lib and tok = "snlm0e c" and w = "draw w"
          and e = e and c = c and images = images and image_paths = image_paths] ph
      by simp
    ultimately show ?thesis by (rule extends_with_trans)
  qed
  show ?thesis
  proof (cases pr)
    case (Inl ex)
    then show ?thesis using ph e1 by (simp add: send_stream_request_def Let_def)
  next
    case (Inr paths)
    let ?b = "build_request_data e lib c tx images (Some paths) model url_context tools w1"
    obtain w2 br where b: "?b = (w2, br)"
      by (cases ?b)
    have "extends_with ?P w1 w2"
      using build_request_data_trace [of e lib c tx images "Some paths" model url_context tools w1] b
      by (simp add: extends_with_refl)
    with e1 have e2: "extends_with ?P w w2" by (rule extends_with_trans)
    show ?thesis
    proof (cases br)
      case (Inl ex)
      then show ?thesis using ph Inr b e2 by (simp add: send_stream_request_def Let_def)
    next
      case rd: (Inr req_data)
      obtain w3 r where pc: "post_chat e lib c ps req_data w2 = (w3, r)"
        by (cases "post_chat e lib c ps req_data w2")
      have "?P (chat_request ps req_data c)"
        using chat_request_token [where ps = ps, OF b [unfolded rd]]
        by (simp add: sender_request_def)
      then have "extends_with ?P w2 w3"
        using post_chat_extends [where P = ?P and ps = ps and req_data = req_data and c = c
            and w = w2 and e = e and lib = lib] pc
        by simp
      with e2 have e3: "extends_with ?P w w3" by (rule extends_with_trans)
      show ?thesis
      proof (cases r)
        case (Inl ex)
        then show ?thesis
          using ph Inr b rd pc e3 by (simp add: send_stream_request_def Let_def ps_def)
      next
        case resp: (Inr resp)
        have "snlm0e (fst (foldl (stream_line lib)
                 (c\<lparr>request_count := request_count c + 1\<rparr>, [], [])
                 (split_lines (resp_text resp)))) = snlm0e c"
          using foldl_stream_line_snlm0e
            [where lib = lib and st = "(c\<lparr>request_count := request_count c + 1\<rparr>, [], [])"]
          by simp
        then show ?thesis
          using ph Inr b rd pc resp e3
          by (cases "foldl (stream_line lib)
                 (c\<lparr>request_count := request_count c + 1\<rparr>, [], [])
                 (split_lines (resp_text resp))")
             (simp add: send_stream_request_def Let_def ps_def)
      qed
    qed
  qed
qed

lemma debug_fallback_extends:
  "extends_with (sender_request lib (snlm0e c)) w
     (fst (snd (debug_fallback e lib tx images model url_context tools image_paths response_text
                  (c, w, reply))))"
proof -
  let ?s = "send_stream_request e lib c tx images model url_context tools (Some image_paths) w"
  obtain c' w' r where sr: "?s = (c', w', r)"
    by (cases ?s)
  have "extends_with (sender_request lib (snlm0e c)) w w'"
    using send_stream_request_extends [where lib = lib and c = c and w = w and e = e and tx = tx
        and images = images and model = model and url_context = url_context and tools = tools
        and image_paths = "Some image_paths"] sr
    by simp
  moreover have "extends_with (sender_request lib (snlm0e c)) w w"
    by (rule extends_with_refl) simp
  ultimately show ?thesis
    using sr by (simp add: debug_fallback_def Let_def split: sum.splits)
qed

lemma complete_request_extends:
  "extends_with (sender_request lib (snlm0e c)) w
     (fst (snd (complete_request e lib c tx images model url_context tools image_paths resp w)))"
proof -
  let ?c1 = "c\<lparr>request_count := request_count c + 1\<rparr>"
  obtain c2 parsed where p: "parse_response lib (resp_text resp) ?c1 = (c2, parsed)"
    by (cases "parse_response lib (resp_text resp) ?c1")
  have tok: "snlm0e c2 = snlm0e c"
    using parse_response_snlm0e [where lib = lib and c = ?c1 and tx = "resp_text resp"] p by simp
  let ?reply0 = "(case parsed of Inr t \<Rightarrow> t | Inl ex \<Rightarrow> fallback_text)"
  let ?d = "debug_fallback e lib tx images model url_context tools image_paths (resp_text resp)
              (c2, w, ?reply0)"
  obtain c3 w1 reply_text where d: "?d = (c3, w1, reply_text)"
    by (cases ?d)
  have "extends_with (sender_request lib (snlm0e c2)) w w1"
    using debug_fallback_extends [where lib = lib and c = c2 and w = w and e = e and tx = tx
        and images = images and model = model and url_context = url_context and tools = tools
        and image_paths = image_paths and response_text = "resp_text resp" and reply = ?reply0] d
    by simp
  then have "extends_with (sender_request lib (snlm0e c)) w (draw (draw w1))"
    using tok by (simp add: extends_with_def trace_draw)
  then show ?thesis
    using p d by (simp add: complete_request_def Let_def)
qed

lemma send_request_extends:
  "extends_with (sender_request lib (snlm0e c)) w
     (fst (snd (send_request e lib c tx images model url_context tools w)))"
proof -
  let ?P = "sender_request lib (snlm0e c)"
  define ps where "ps = request_params e lib c w"
  obtain w1 pr where ph: "request_image_paths e lib c images (draw w) = (w1, pr)"
    by (cases "request_image_paths e lib c images (draw w)")
  have e1: "extends_with ?P w w1"
  proof -
    have "extends_with ?P w (draw w)"
      by (rule extends_with_refl) (rule trace_draw)
    moreover have "extends_with ?P (draw w) w1"
      using request_image_paths_extends [where lib = lib and tok = "snlm0e c" and w = "draw w"
          and e = e and c = c and images = images] ph
      by simp
    ultimately show ?thesis by (rule extends_with_trans)
  qed
  show ?thesis
  proof (cases pr)
    case (Inl ex)
    then show ?thesis using ph e1 by (simp add: send_request_def Let_def)
  next
    case (Inr paths)
    let ?b = "build_request_data e lib c tx images (Some paths) model url_context tools w1"
    obtain w2 br where b: "?b = (w2, br)"
      by (cases ?b)
    have "extends_with ?P w1 w2"
      using build_request_data_trace [of e lib c tx images "Some paths" model url_context tools w1] b
      by (simp add: extends_with_refl)
    with e1 have e2: "extends_with ?P w w2" by (rule extends_with_trans)
    show ?thesis
    proof (cases br)
      case (Inl ex)
      then show ?thesis using ph Inr b e2 by (simp add: send_request_def Let_def)
    next
      case rd: (Inr req_data)
      show ?thesis
      proof (cases "if debug c then request_debug_message c else Inr []")
        case (Inl ex)
        then show ?thesis using ph Inr b rd e2 by (simp add: send_request_def Let_def)
      next
        case shown: (Inr shown)
        obtain w3 r where pc: "post_chat e lib c ps req_data w2 = (w3, r)"
          by (cases "post_chat e lib c ps req_data w2")
        have "?P (chat_request ps req_data c)"
          using chat_request_token [where ps = ps, OF b [unfolded rd]]
          by (simp add: sender_request_def)
        then have "extends_with ?P w2 w3"
          using post_chat_extends [where P = ?P and ps = ps and req_data = req_data and c = c
              and w = w2 and e = e and lib = lib] pc
          by simp
        with e2 have e3: "extends_with ?P w w3" by (rule extends_with_trans)
        show ?thesis
        proof (cases r)
          case (Inl ex)
          then show ?thesis
            using ph Inr b rd shown pc e3 by (simp add: send_request_def Let_def ps_def)
        next
          case resp: (Inr resp)
          let ?k = "complete_request e lib c tx images model url_context tools paths resp w3"
          obtain c' w4 completion where k: "?k = (c', w4, completion)"
            by (cases ?k)
          have "extends_with ?P w3 w4"
            using complete_request_extends [where lib = lib and c = c and w = w3 and e = e
                and tx = tx and images = images and model = model and url_context = url_context
                and tools = tools and image_paths = paths and resp = resp] k
            by simp
          with e3 have "extends_with ?P w w4" by (rule extends_with_trans)
          then show ?thesis
            using ph Inr b rd shown pc resp k by (simp add: send_request_def Let_def ps_def)
        qed
      qed
    qed
  qed
qed

lemma init_unset:
  "unset snlm0e_arg \<Longrightarrow>
   init e lib snlm0e_arg bl_arg push_id_arg debug_arg sf w = (w, Inl ValueError)"
  by (simp add: init_def Let_def)

text \<open>
  C5. Constructing the client without \<open>snlm0e\<close> (None or empty) raises ValueError and
  sends nothing. Every request that \<open>_send_request\<close> or \<open>_send_stream_request\<close> adds
  to the trace and that goes to the chat URL has the client's token under \<open>at\<close> in its
  form, and under \<open>f.req\<close> the doubly encoded array whose element 3 is the token.
\<close>

theorem snlm0e_on_every_chat_request:
  "(unset snlm0e_arg \<longrightarrow>
      init e lib snlm0e_arg bl_arg push_id_arg debug_arg sf w = (w, Inl ValueError))
   \<and> (\<exists>new. trace (fst (snd (send_request e lib c tx images model url_context tools w)))
               = trace w @ new
         \<and> (\<forall>req \<in> set new. url req = chat_url \<longrightarrow>
               map_of (form req) (ascii ''at'') = Some (snlm0e c)
               \<and> (\<exists>inner. map_of (form req) (ascii ''f.req'')
                      = Some (Some (json_dumps lib
                                     (JArr [JNull, JStr (json_dumps lib (JArr inner))])))
                    \<and> length inner = 67
                    \<and> inner ! 3 = (case snlm0e c of None \<Rightarrow> JNull | Some t \<Rightarrow> JStr t))))
   \<and> (\<exists>new. trace (fst (snd (send_stream_request e lib c tx images model url_context tools
                                 image_paths w)))
               = trace w @ new
         \<and> (\<forall>req \<in> set new. url req = chat_url \<longrightarrow>
               map_of (form req) (ascii ''at'') = Some (snlm0e c)
               \<and> (\<exists>inner. map_of (form req) (ascii ''f.req'')
                      = Some (Some (json_dumps lib
                                     (JArr [JNull, JStr (json_dumps lib (JArr inner))])))
                    \<and> length inner = 67
                    \<and> inner ! 3 = (case snlm0e c of None \<Rightarrow> JNull | Some t \<Rightarrow> JStr t))))"
  using init_unset [of snlm0e_arg e lib bl_arg push_id_arg debug_arg sf w]
        send_request_extends [of lib c w e tx images model url_context tools]
        send_stream_request_extends [of lib c w e tx images model url_context tools image_paths]
  unfolding extends_with_def sender_request_def token_request_def
  by blast

lemma sample_send_request:
  "trace (fst (snd (send_request (scripted_env [Inr (ok_response [] [])]) (table_lib [] [])
                      sample_client (ascii ''hi'') None None False None new_world)))
     = [chat_request
          (request_params (scripted_env [Inr (ok_response [] [])]) (table_lib [] [])
             sample_client new_world) [] sample_client]"
  by (simp add: send_request_def request_image_paths_def post_chat_def build_request_data_def build_inner_def
      request_image_data_def complete_request_def parse_response_def process_line_def skipped_line_def strip_def
      debug_fallback_def Let_def send_def draw_def scripted_env_def ok_response_def
      table_lib_def sample_client_def new_world_def save_session_state_def)

theorem snlm0e_on_every_chat_request_witness:
  "init (scripted_env []) (table_lib [] []) None None None False NoFile new_world
     = (new_world, Inl ValueError)
   \<and> map (\<lambda>req. (url req = chat_url, map_of (form req) (ascii ''at'')))
         (trace (fst (snd (send_request (scripted_env [Inr (ok_response [] [])])
                             (table_lib [] []) sample_client (ascii ''hi'') None None False
                             None new_world))))
       = [(True, Some (Some (ascii ''AKtoken'')))]"
proof -
  let ?e = "scripted_env [Inr (ok_response [] [])]"
  let ?lib = "table_lib [] []"
  let ?run = "send_request ?e ?lib sample_client (ascii ''hi'') None None False None new_world"
  let ?req = "chat_request (request_params ?e ?lib sample_client new_world) [] sample_client"
  note inst1 = snlm0e_on_every_chat_request [where snlm0e_arg = None and e = "scripted_env []"
      and lib = ?lib and bl_arg = None and push_id_arg = None and debug_arg = False
      and sf = NoFile and w = new_world]
  have first: "init (scripted_env []) ?lib None None None False NoFile new_world
     = (new_world, Inl ValueError)"
    using inst1 by (simp add: unset_def)
  note inst2 = snlm0e_on_every_chat_request [where e = ?e and lib = ?lib and c = sample_client
      and tx = "ascii ''hi''" and images = None and model = None and url_context = False
      and tools = None and w = new_world]
  then obtain new where
    n: "trace (fst (snd ?run)) = trace new_world @ new"
       "\<forall>req \<in> set new. url req = chat_url \<longrightarrow>
           map_of (form req) (ascii ''at'') = Some (snlm0e sample_client)"
    by blast
  have tr: "trace (fst (snd ?run)) = [?req]"
    by (rule sample_send_request)
  have "new = [?req]"
    using n(1) tr by (simp add: new_world_def)
  moreover have u: "url ?req = chat_url"
    by (simp add: chat_request_def)
  ultimately have "map_of (form ?req) (ascii ''at'') = Some (snlm0e sample_client)"
    using n(2) by simp
  then have "map (\<lambda>req. (url req = chat_url, map_of (form req) (ascii ''at''))) (trace (fst (snd ?run)))
       = [(True, Some (Some (ascii ''AKtoken'')))]"
    using tr u by (simp add: sample_client_def)
  with first show ?thesis by (rule conjI)
qed

text \<open>
  C6, amended. Without \<open>push_id\<close> (None or empty), \<open>_upload_image\<close> raises
  CookieExpiredError and sends nothing; \<open>_send_request\<close> with a non-empty list of
  images, and \<open>_send_stream_request\<close> with a non-empty list of images and no
  \<open>image_paths\<close>, raise CookieExpiredError with the client unchanged and no request
  sent (the one random draw for \<open>_reqid\<close> has been made).
\<close>

theorem push_id_required:
  "(unset (push_id c) \<longrightarrow>
      upload_image e lib c image_data mime w = (w, Inl CookieExpiredError))
   \<and> (unset (push_id c) \<and> images = Some (img # imgs) \<longrightarrow>
        send_request e lib c tx images model url_context tools w
          = (c, draw w, Inl CookieExpiredError)
        \<and> send_stream_request e lib c tx images model url_context tools None w
          = (c, draw w, Inl CookieExpiredError)
        \<and> trace (draw w) = trace w)"
  by (simp add: upload_image_unset send_request_def send_stream_request_def
      request_image_paths_def stream_image_paths_def Let_def trace_draw)

theorem push_id_required_witness:
  "upload_image (scripted_env []) (table_lib [] []) sample_client [1, 2, 3] (ascii ''image/png'')
       new_world = (new_world, Inl CookieExpiredError)
   \<and> send_request (scripted_env []) (table_lib [] []) sample_client (ascii ''hi'')
        (Some [sample_image]) None False None new_world
       = (sample_client, draw new_world, Inl CookieExpiredError)
   \<and> send_stream_request (scripted_env []) (table_lib [] []) sample_client (ascii ''hi'')
        (Some [sample_image]) None False None None new_world
       = (sample_client, draw new_world, Inl CookieExpiredError)
   \<and> trace (draw new_world) = []"
  using push_id_required [where c = sample_client and e = "scripted_env []"
      and lib = "table_lib [] []" and image_data = "[1, 2, 3]" and mime = "ascii ''image/png''"
      and w = new_world and images = "Some [sample_image]" and img = sample_image and imgs = "[]"
      and tx = "ascii ''hi''" and model = None and url_context = False and tools = None]
  by (simp add: sample_client_def unset_def new_world_def)

text \<open>
  C6 as stated fails when \<open>_send_stream_request\<close> is given \<open>image_paths\<close>: with images
  and without \<open>push_id\<close> it raises nothing and sends the chat request.
\<close>

theorem stream_request_with_paths_counterexample:
  "unset (push_id sample_client)
   \<and> (case send_stream_request (scripted_env [Inr (ok_response [] [])]) (table_lib [] [])
             sample_client (ascii ''hi'') (Some [sample_image]) None False None
             (Some [sample_path]) new_world of
        (c', w', r) \<Rightarrow> r = Inr [] \<and> map url (trace w') = [chat_url])"
  by (simp add: send_stream_request_def stream_image_paths_def post_chat_def
      build_request_data_def build_inner_def request_image_data_def Let_def send_def
      draw_def scripted_env_def ok_response_def
      table_lib_def sample_client_def new_world_def unset_def chat_request_def
      stream_line_def skipped_line_def strip_def sample_image_def)

section \<open>Properties of the request data\<close>

lemma build_inner_shape:
  "\<exists>inner image_data. snd (build_inner e lib c tx images image_paths w) = JArr inner
     \<and> length inner = 67
     \<and> inner ! 0 = JArr [JStr tx, JInt 0, JNull, image_data, JNull, JNull, JInt 0]
     \<and> inner ! 2 = JArr [py_or (conversation_id c) (JStr []), py_or (response_id c) (JStr []),
                          py_or (choice_id c) (JStr []),
                          JNull, JNull, JNull, JNull, JNull, JNull, JStr []]"
proof -
  obtain image_data session_id timestamp where
    b: "snd (build_inner e lib c tx images image_paths w)
       = inner_data c tx image_data session_id timestamp"
    using build_inner_inner_data [of e lib c tx images image_paths w] by blast
  show ?thesis
    using inner_data_shape [of c tx image_data session_id timestamp] b by auto
qed






text \<open>
  C2. Whenever \<open>_build_request_data\<close> returns, the inner array it encoded has at index 2
  an array that starts with the client's \<open>conversation_id\<close>, \<open>response_id\<close> and
  \<open>choice_id\<close>, each as \<open>x or ""\<close>: a value that counts as true is placed as it is, a
  string is always placed as it is (the empty one included), and None becomes the empty
  string. With a JSON library whose decoder inverts its encoder on the two arrays,
  decoding the result twice gives that inner array back. The function returns exactly
  when \<open>debug_ok\<close> holds; otherwise it raises and no request is built.
\<close>

theorem conversation_ids_echoed:
  "(case snd (build_request_data e lib c tx images image_paths model url_context tools w) of
      Inl ex \<Rightarrow> \<not> debug_ok c
    | Inr s \<Rightarrow>
        debug_ok c
        \<and> (\<exists>inner rest.
              snd (build_inner e lib c tx images image_paths w) = JArr inner
              \<and> s = json_dumps lib (JArr [JNull, JStr (json_dumps lib (JArr inner))])
              \<and> length inner = 67
              \<and> inner ! 2 = JArr (py_or (conversation_id c) (JStr [])
                                    # py_or (response_id c) (JStr [])
                                    # py_or (choice_id c) (JStr []) # rest)
              \<and> (roundtrip lib (JArr inner)
                   \<and> roundtrip lib (JArr [JNull, JStr (json_dumps lib (JArr inner))])
                  \<longrightarrow> (\<exists>inner_json. json_loads lib s = Inr (JArr [JNull, JStr inner_json])
                         \<and> json_loads lib inner_json = Inr (JArr inner)))))
   \<and> (\<forall>v. truthy v \<longrightarrow> py_or v (JStr []) = v)
   \<and> (\<forall>s. py_or (JStr s) (JStr []) = JStr s)
   \<and> py_or JNull (JStr []) = JStr []"
proof -
  let ?b = "build_request_data e lib c tx images image_paths model url_context tools w"
  have ors: "(\<forall>v. truthy v \<longrightarrow> py_or v (JStr []) = v)
      \<and> (\<forall>s. py_or (JStr s) (JStr []) = JStr s) \<and> py_or JNull (JStr []) = JStr []"
    by (simp add: py_or_def)
  have main: "(case snd ?b of
      Inl ex \<Rightarrow> \<not> debug_ok c
    | Inr s \<Rightarrow>
        debug_ok c
        \<and> (\<exists>inner rest.
              snd (build_inner e lib c tx images image_paths w) = JArr inner
              \<and> s = json_dumps lib (JArr [JNull, JStr (json_dumps lib (JArr inner))])
              \<and> length inner = 67
              \<and> inner ! 2 = JArr (py_or (conversation_id c) (JStr [])
                                    # py_or (response_id c) (JStr [])
                                    # py_or (choice_id c) (JStr []) # rest)
              \<and> (roundtrip lib (JArr inner)
                   \<and> roundtrip lib (JArr [JNull, JStr (json_dumps lib (JArr inner))])
                  \<longrightarrow> (\<exists>inner_json. json_loads lib s = Inr (JArr [JNull, JStr inner_json])
                         \<and> json_loads lib inner_json = Inr (JArr inner)))))"
  proof (cases "debug_ok c")
    case False
    then show ?thesis
      using build_request_data_raises [of c e lib tx images image_paths model url_context tools w]
      by auto
  next
    case True
    obtain inner where
      i: "snd (build_inner e lib c tx images image_paths w) = JArr inner" "length inner = 67"
         "inner ! 2 = JArr [py_or (conversation_id c) (JStr []), py_or (response_id c) (JStr []),
                            py_or (choice_id c) (JStr []),
                            JNull, JNull, JNull, JNull, JNull, JNull, JStr []]"
      using build_inner_shape [of e lib c tx images image_paths w] by blast
    let ?s = "json_dumps lib (JArr [JNull, JStr (json_dumps lib (JArr inner))])"
    have b: "snd ?b = Inr ?s"
      using i(1) by (simp add: build_request_data_ok [OF True])
    have dec: "roundtrip lib (JArr inner)
         \<and> roundtrip lib (JArr [JNull, JStr (json_dumps lib (JArr inner))])
        \<longrightarrow> (\<exists>inner_json. json_loads lib ?s = Inr (JArr [JNull, JStr inner_json])
               \<and> json_loads lib inner_json = Inr (JArr inner))"
      unfolding roundtrip_def by auto
    have "\<exists>inner rest.
              snd (build_inner e lib c tx images image_paths w) = JArr inner
              \<and> ?s = json_dumps lib (JArr [JNull, JStr (json_dumps lib (JArr inner))])
              \<and> length inner = 67
              \<and> inner ! 2 = JArr (py_or (conversation_id c) (JStr [])
                                    # py_or (response_id c) (JStr [])
                                    # py_or (choice_id c) (JStr []) # rest)
              \<and> (roundtrip lib (JArr inner)
                   \<and> roundtrip lib (JArr [JNull, JStr (json_dumps lib (JArr inner))])
                  \<longrightarrow> (\<exists>inner_json. json_loads lib ?s = Inr (JArr [JNull, JStr inner_json])
                         \<and> json_loads lib inner_json = Inr (JArr inner)))"
      using i dec by blast
    then show ?thesis
      using True b by simp
  qed
  from main ors show ?thesis by (rule conjI)
qed

lemma session_inner_not_outer: "session_inner \<noteq> JArr [JNull, JStr s]"
  by (simp add: session_inner_def inner_data_def Let_def)

lemma session_build_inner:
  "snd (build_inner (scripted_env []) session_lib session_client (ascii ''hi'') None None
          new_world)
     = session_inner"
  by (simp add: build_inner_def request_image_data_def Let_def scripted_env_def draw_def
      new_world_def session_inner_def)

theorem conversation_ids_echoed_witness:
  "debug session_client
   \<and> (\<exists>s inner_json inner rest.
        snd (build_request_data (scripted_env []) session_lib session_client (ascii ''hi'')
               None None None False None new_world) = Inr s
        \<and> json_loads session_lib s = Inr (JArr [JNull, JStr inner_json])
        \<and> json_loads session_lib inner_json = Inr (JArr inner)
        \<and> inner ! 2 = JArr (JStr (ascii ''c_1a'') # JStr (ascii ''r_2b'')
                              # JStr (ascii ''rc_3c'') # rest))"
proof -
  let ?b = "build_request_data (scripted_env []) session_lib session_client (ascii ''hi'')
               None None None False None new_world"
  have dbg: "debug session_client"
    by (simp add: session_client_def)
  have ok: "debug_ok session_client"
    by (simp add: debug_ok_def printable_id_def session_client_def)
  have r1: "roundtrip session_lib session_inner"
    by (simp add: roundtrip_def session_lib_def table_lib_def ascii_def)
  have d: "json_dumps session_lib session_inner = ascii ''I''"
    by (simp add: session_lib_def table_lib_def)
  have "roundtrip session_lib (JArr [JNull, JStr (ascii ''I'')])"
    using session_inner_not_outer [of "ascii ''I''"]
    by (simp add: roundtrip_def session_lib_def table_lib_def ascii_def)
  then have r2: "roundtrip session_lib
      (JArr [JNull, JStr (json_dumps session_lib session_inner)])"
    by (simp only: d)
  note inst = conversation_ids_echoed [where e = "scripted_env []" and lib = session_lib
      and c = session_client and tx = "ascii ''hi''" and images = None and image_paths = None
      and model = None and url_context = False and tools = None and w = new_world]
  obtain s where s: "snd ?b = Inr s"
    using inst ok by (cases "snd ?b") auto
  have "\<exists>inner rest.
      snd (build_inner (scripted_env []) session_lib session_client (ascii ''hi'') None None
             new_world) = JArr inner
      \<and> inner ! 2 = JArr (py_or (conversation_id session_client) (JStr [])
                            # py_or (response_id session_client) (JStr [])
                            # py_or (choice_id session_client) (JStr []) # rest)
      \<and> (roundtrip session_lib (JArr inner)
           \<and> roundtrip session_lib (JArr [JNull, JStr (json_dumps session_lib (JArr inner))])
          \<longrightarrow> (\<exists>inner_json. json_loads session_lib s = Inr (JArr [JNull, JStr inner_json])
                 \<and> json_loads session_lib inner_json = Inr (JArr inner)))"
    using inst s by simp blast
  then obtain inner rest where
    i: "snd (build_inner (scripted_env []) session_lib session_client (ascii ''hi'') None None
             new_world) = JArr inner"
       "inner ! 2 = JArr (py_or (conversation_id session_client) (JStr [])
                            # py_or (response_id session_client) (JStr [])
                            # py_or (choice_id session_client) (JStr []) # rest)"
       "roundtrip session_lib (JArr inner)
           \<and> roundtrip session_lib (JArr [JNull, JStr (json_dumps session_lib (JArr inner))])
          \<longrightarrow> (\<exists>inner_json. json_loads session_lib s = Inr (JArr [JNull, JStr inner_json])
                 \<and> json_loads session_lib inner_json = Inr (JArr inner))"
    by blast
  have eq: "session_inner = JArr inner"
    using i(1) by (simp only: session_build_inner)
  have "roundtrip session_lib (JArr inner)
      \<and> roundtrip session_lib (JArr [JNull, JStr (json_dumps session_lib (JArr inner))])"
    using r1 r2 by (simp only: eq)
  with i(3) obtain inner_json where
    j: "json_loads session_lib s = Inr (JArr [JNull, JStr inner_json])"
       "json_loads session_lib inner_json = Inr (JArr inner)"
    by blast
  have "inner ! 2 = JArr (JStr (ascii ''c_1a'') # JStr (ascii ''r_2b'')
                            # JStr (ascii ''rc_3c'') # rest)"
    using i(2) by (simp add: session_client_def py_or_def ascii_def)
  with s j have "\<exists>s inner_json inner rest.
        snd ?b = Inr s
        \<and> json_loads session_lib s = Inr (JArr [JNull, JStr inner_json])
        \<and> json_loads session_lib inner_json = Inr (JArr inner)
        \<and> inner ! 2 = JArr (JStr (ascii ''c_1a'') # JStr (ascii ''r_2b'')
                              # JStr (ascii ''rc_3c'') # rest)"
    by blast
  with dbg show ?thesis by (rule conjI)
qed

section \<open>Properties of the response parser\<close>

lemma process_line_skipped: "skipped_line lib line \<Longrightarrow> process_line lib st line = st"
  by (simp add: process_line_def)

lemma try_line_no_payload:
  "line_payload lib line = Inl ex \<or> line_payload lib line = Inr None \<Longrightarrow>
   try_line lib line (c, ft) = (c, (case line_payload lib line of Inl ex \<Rightarrow> Inl ex | Inr _ \<Rightarrow> Inr ft))"
  by (auto simp add: try_line_def)

lemma process_line_no_payload:
  assumes "line_payload lib (strip lib line) = Inl ex \<or> line_payload lib (strip lib line) = Inr None"
  shows "process_line lib st line = st"
proof (cases st)
  case (Pair c ft)
  show ?thesis
    using assms try_line_no_payload [of lib "strip lib line" _ c ft]
    by (auto simp add: process_line_def Pair)
qed

lemma line_payload_undecodable:
  "json_loads lib line = Inl ex \<Longrightarrow> line_payload lib line = Inl ex"
  by (simp add: line_payload_def)

lemma line_payload_other_shape:
  assumes "json_loads lib line = Inr v"
    and "\<forall>actual_data rest. v = JArr (JArr actual_data # rest) \<longrightarrow>
           length actual_data < 3 \<or> actual_data ! 0 \<noteq> JStr (ascii ''wrb.fr'')"
  shows "line_payload lib line = Inr None"
  using assms
  by (auto simp add: line_payload_def split: json.splits list.splits)

text \<open>The text so far only changes to a text that is not blank, and never gets shorter.\<close>

lemma candidate_text_not_blank:
  "candidate_text lib inner_json = Inr (Some (t, cand)) \<Longrightarrow> strip lib t \<noteq> []"
  by (auto simp add: candidate_text_def split: sum.splits option.splits prod.splits if_splits)

lemma accept_text_cases:
  "accept_text t cand (c, ft) = Inr (c', ft') \<Longrightarrow>
   ft' = (if length t > length ft \<or> ft = [] then t else ft)"
  by (auto simp add: accept_text_def split: sum.splits if_splits)

lemma try_line_text:
  "try_line lib line (c, ft) = (c', Inr ft') \<Longrightarrow>
   ft' = ft \<or> (\<exists>t. strip lib t \<noteq> [] \<and> ft' = (if length t > length ft \<or> ft = [] then t else ft))"
  by (auto simp add: try_line_def split: sum.splits option.splits prod.splits
      dest!: candidate_text_not_blank accept_text_cases)

lemma process_line_text:
  "snd (process_line lib (c, ft) line) = ft
   \<or> (\<exists>t. strip lib t \<noteq> []
          \<and> snd (process_line lib (c, ft) line) = (if length t > length ft \<or> ft = [] then t else ft))"
proof (cases "skipped_line lib line")
  case True
  then show ?thesis by (simp add: process_line_def)
next
  case False
  obtain c' r where t: "try_line lib (strip lib line) (c, ft) = (c', r)"
    by (cases "try_line lib (strip lib line) (c, ft)")
  show ?thesis
  proof (cases r)
    case (Inl ex)
    then show ?thesis using False t by (simp add: process_line_def)
  next
    case (Inr ft')
    then show ?thesis
      using False t try_line_text [of lib "strip lib line" c ft c' ft']
      by (auto simp add: process_line_def)
  qed
qed

lemma process_line_text_ok:
  "text_ok lib (snd st) \<Longrightarrow> text_ok lib (snd (process_line lib st line))"
  using process_line_text [of lib "fst st" "snd st" line]
  by (auto simp add: text_ok_def split: if_splits)

lemma process_line_mono: "length (snd st) \<le> length (snd (process_line lib st line))"
  using process_line_text [of lib "fst st" "snd st" line]
  by (auto split: if_splits)

lemma foldl_process_line_text_ok:
  "text_ok lib (snd st) \<Longrightarrow> text_ok lib (snd (foldl (process_line lib) st ls))"
  by (induction ls arbitrary: st) (simp_all add: process_line_text_ok)

lemma foldl_process_line_mono:
  "length (snd st) \<le> length (snd (foldl (process_line lib) st ls))"
proof (induction ls arbitrary: st)
  case Nil
  then show ?case by simp
next
  case (Cons l ls)
  have "length (snd st) \<le> length (snd (process_line lib st l))"
    by (rule process_line_mono)
  also have "\<dots> \<le> length (snd (foldl (process_line lib) (process_line lib st l) ls))"
    by (rule Cons.IH)
  finally show ?case by simp
qed

lemma parse_response_result:
  "snd (parse_response lib tx c)
     = (let ft = snd (foldl (process_line lib) (c, []) (split_lines tx))
        in if ft \<noteq> [] then Inr (strip lib ft) else Inr fallback_text)"
proof -
  obtain c' ft where f: "foldl (process_line lib) (c, []) (split_lines tx) = (c', ft)"
    by (cases "foldl (process_line lib) (c, []) (split_lines tx)")
  have "text_ok lib ft"
    using foldl_process_line_text_ok [of lib "(c, [])" "split_lines tx"] f
    by (simp add: text_ok_def)
  then show ?thesis
    using f by (auto simp add: parse_response_def text_ok_def)
qed

lemma foldl_silent:
  assumes "\<forall>line \<in> set ls. \<forall>c'. snd (process_line lib (c', []) line) = []"
  shows "snd (foldl (process_line lib) (c, []) ls) = []"
  using assms
proof (induction ls arbitrary: c)
  case Nil
  then show ?case by simp
next
  case (Cons l ls)
  obtain c1 ft1 where p: "process_line lib (c, []) l = (c1, ft1)"
    by (cases "process_line lib (c, []) l")
  have "ft1 = []"
    using Cons.prems p by (metis list.set_intros(1) snd_conv)
  then show ?case
    using Cons p by simp
qed

text \<open>
  C3. \<open>_parse_response\<close>, with \<open>debug\<close> off, returns a string for every input and
  never raises. A line that is empty after stripping, starts with \<open>)]}'\<close> or consists
  of digits is skipped: it changes neither the client nor the text so far. The same
  holds for a line that \<open>json.loads\<close> rejects, and for a line that decodes to anything
  but an array whose first element is an array of at least three elements starting with
  \<open>wrb.fr\<close>. When no line yields a text, the result is the fallback string.
\<close>

theorem parse_response_total:
  "(\<exists>s. snd (parse_response lib tx c) = Inr s)
   \<and> (strip lib line = [] \<or> startswith (strip lib line) (ascii '')]}'' @ [39])
        \<or> str_isdigit lib (strip lib line)
       \<longrightarrow> process_line lib st line = st)
   \<and> ((\<exists>ex. json_loads lib (strip lib line) = Inl ex) \<longrightarrow> process_line lib st line = st)
   \<and> ((\<exists>v. json_loads lib (strip lib line) = Inr v
            \<and> (\<forall>actual_data rest. v = JArr (JArr actual_data # rest) \<longrightarrow>
                  length actual_data < 3 \<or> actual_data ! 0 \<noteq> JStr (ascii ''wrb.fr'')))
       \<longrightarrow> process_line lib st line = st)
   \<and> ((\<forall>l \<in> set (split_lines tx). \<forall>c'. snd (process_line lib (c', []) l) = [])
       \<longrightarrow> snd (parse_response lib tx c) = Inr fallback_text)"
proof -
  have a: "\<exists>s. snd (parse_response lib tx c) = Inr s"
    by (simp add: parse_response_result Let_def)
  have b: "strip lib line = [] \<or> startswith (strip lib line) (ascii '')]}'' @ [39])
        \<or> str_isdigit lib (strip lib line)
       \<longrightarrow> process_line lib st line = st"
    using process_line_skipped [of lib line st] by (simp add: skipped_line_def Let_def)
  have c1: "(\<exists>ex. json_loads lib (strip lib line) = Inl ex) \<longrightarrow> process_line lib st line = st"
    using process_line_no_payload line_payload_undecodable by blast
  have c2: "(\<exists>v. json_loads lib (strip lib line) = Inr v
            \<and> (\<forall>actual_data rest. v = JArr (JArr actual_data # rest) \<longrightarrow>
                  length actual_data < 3 \<or> actual_data ! 0 \<noteq> JStr (ascii ''wrb.fr'')))
       \<longrightarrow> process_line lib st line = st"
    using process_line_no_payload line_payload_other_shape by blast
  have d: "(\<forall>l \<in> set (split_lines tx). \<forall>c'. snd (process_line lib (c', []) l) = [])
       \<longrightarrow> snd (parse_response lib tx c) = Inr fallback_text"
    using foldl_silent [of "split_lines tx" lib c]
    by (simp add: parse_response_result Let_def)
  from a b c1 c2 d show ?thesis by blast
qed

theorem parse_response_total_witness:
  "snd (parse_response (table_lib [(ascii ''[1]'', JArr [JInt 1])] []) sample_body sample_client)
     = Inr fallback_text"
proof -
  let ?lib = "table_lib [(ascii ''[1]'', JArr [JInt 1])] []"
  have sl: "split_lines sample_body
      = [ascii '')]}'' @ [39], ascii ''123'', [], ascii ''nonsense'', ascii ''[1]'']"
    by (simp add: sample_body_def ascii_def)
  have silent: "\<forall>l \<in> set (split_lines sample_body). \<forall>c'. snd (process_line ?lib (c', []) l) = []"
    unfolding sl
    by (simp add: process_line_def skipped_line_def strip_def str_isdigit_def startswith_def
        try_line_def line_payload_def table_lib_def ascii_def Let_def)
  show ?thesis
    using parse_response_total [where lib = ?lib and tx = sample_body and c = sample_client]
      silent
    by blast
qed

lemma update_context_list:
  "\<exists>c1. update_context (JArr inner) c = Inr c1"
  unfolding update_context_def Let_def
  by (auto split: json.splits)

lemma concat_texts_strings: "concat_texts (part_text lib) (map JStr strs) = Inr (concat strs)"
  by (induction strs) simp_all

lemma candidate_text_strings:
  assumes "length inner > 4"
    and "inner ! 4 = JArr (JArr (c0 # JArr (map JStr strs) # crest) # cands)"
    and "strs \<noteq> []"
    and "strip lib (concat strs) \<noteq> []"
  shows "candidate_text lib (JArr inner)
           = Inr (Some (concat strs, JArr (c0 # JArr (map JStr strs) # crest)))"
proof -
  have ne: "inner \<noteq> []" using assms(1) by auto
  have "first_candidate (JArr inner)
          = Inr (Some (JArr (c0 # JArr (map JStr strs) # crest), JArr (map JStr strs)))"
    using assms(1,2,3) ne by (simp add: first_candidate_def)
  then show ?thesis
    using assms(4) by (simp add: candidate_text_def content_text_def concat_texts_strings)
qed

lemma accept_text_list:
  "accept_text t (JArr (c0 # rest)) (c, ft)
     = Inr (if length t > length ft \<or> ft = []
            then (save_session_state (c\<lparr>choice_id := py_or c0 (choice_id c)\<rparr>), t)
            else (c, ft))"
  by (simp add: accept_text_def)

lemma process_line_text_line:
  assumes "text_line lib line strs"
  shows "snd (process_line lib (c, ft) line)
           = (if length (concat strs) > length ft \<or> ft = [] then concat strs else ft)"
proof -
  from assms obtain x payload extra rest inner c0 crest cands where
    ns: "\<not> skipped_line lib line"
    and l1: "json_loads lib (strip lib line)
              = Inr (JArr (JArr (JStr (ascii ''wrb.fr'') # x # JStr payload # extra) # rest))"
    and nc: "\<not> is_citation_status (JStr (ascii ''wrb.fr'') # x # JStr payload # extra)"
    and pn: "payload \<noteq> []"
    and l2: "json_loads lib payload = Inr (JArr inner)"
    and len: "length inner > 4"
    and cand: "inner ! 4 = JArr (JArr (c0 # JArr (map JStr strs) # crest) # cands)"
    and sn: "strs \<noteq> []"
    and nb: "strip lib (concat strs) \<noteq> []"
    unfolding text_line_def by blast
  have pl: "line_payload lib (strip lib line) = Inr (Some (JArr inner))"
    using l1 nc pn l2 by (simp add: line_payload_def)
  obtain c1 where uc: "update_context (JArr inner) c = Inr c1"
    using update_context_list by blast
  have ct: "candidate_text lib (JArr inner)
           = Inr (Some (concat strs, JArr (c0 # JArr (map JStr strs) # crest)))"
    using candidate_text_strings [OF len cand sn nb] .
  show ?thesis
    using ns pl uc ct
    by (simp add: process_line_def try_line_def accept_text_list)
qed

lemma strip_Nil: "strip lib [] = []"
  by (simp add: strip_def)

lemma process_line_from_empty:
  "snd (process_line lib (c, ft) line)
     = (let t = snd (process_line lib (c, []) line)
        in if t \<noteq> [] \<and> (length t > length ft \<or> ft = []) then t else ft)"
proof (cases "skipped_line lib line")
  case True
  then show ?thesis by (simp add: process_line_def)
next
  case False
  show ?thesis
  proof (cases "line_payload lib (strip lib line)")
    case (Inl ex)
    then show ?thesis using False by (simp add: process_line_def try_line_def)
  next
    case (Inr p)
    show ?thesis
    proof (cases p)
      case None
      then show ?thesis using False Inr by (simp add: process_line_def try_line_def)
    next
      case (Some inner_json)
      show ?thesis
      proof (cases "update_context inner_json c")
        case uc: (Inl ex)
        then show ?thesis using False Inr Some by (simp add: process_line_def try_line_def)
      next
        case uc: (Inr c1)
        show ?thesis
        proof (cases "candidate_text lib inner_json")
          case ct: (Inl ex)
          then show ?thesis using False Inr Some uc by (simp add: process_line_def try_line_def)
        next
          case ct: (Inr r)
          show ?thesis
          proof (cases r)
            case None
            then show ?thesis
              using False Inr Some uc ct by (simp add: process_line_def try_line_def)
          next
            case tc: (Some tc)
            obtain t cand where tc_eq: "tc = (t, cand)" by (cases tc)
            have "strip lib t \<noteq> []"
              using candidate_text_not_blank ct tc tc_eq by blast
            then have tn: "t \<noteq> []" using strip_Nil by auto
            show ?thesis
              using False Inr Some uc ct tc tc_eq tn
              by (auto simp add: process_line_def try_line_def accept_text_def Let_def
                  split: sum.splits)
          qed
        qed
      qed
    qed
  qed
qed

lemma foldl_shorter:
  assumes "\<forall>l \<in> set ls. \<forall>c'. length (snd (process_line lib (c', []) l)) < n"
    and "length ft < n"
  shows "length (snd (foldl (process_line lib) (c, ft) ls)) < n"
  using assms
proof (induction ls arbitrary: c ft)
  case Nil
  then show ?case by simp
next
  case (Cons l ls)
  obtain c1 ft1 where p: "process_line lib (c, ft) l = (c1, ft1)"
    by (cases "process_line lib (c, ft) l")
  have "length (snd (process_line lib (c, []) l)) < n"
    using Cons.prems(1) by simp
  then have "length ft1 < n"
    using process_line_from_empty [of lib c ft l] p Cons.prems(2)
    by (auto simp add: Let_def split: if_splits)
  then show ?case
    using Cons.IH [of ft1 c1] Cons.prems(1) p by simp
qed

lemma foldl_kept:
  assumes "\<forall>l \<in> set ls. \<forall>c'. length (snd (process_line lib (c', []) l)) \<le> length ft"
    and "ft \<noteq> []"
  shows "snd (foldl (process_line lib) (c, ft) ls) = ft"
  using assms
proof (induction ls arbitrary: c)
  case Nil
  then show ?case by simp
next
  case (Cons l ls)
  obtain c1 ft1 where p: "process_line lib (c, ft) l = (c1, ft1)"
    by (cases "process_line lib (c, ft) l")
  have "length (snd (process_line lib (c, []) l)) \<le> length ft"
    using Cons.prems(1) by simp
  then have "ft1 = ft"
    using process_line_from_empty [of lib c ft l] p Cons.prems(2)
    by (auto simp add: Let_def split: if_splits)
  then show ?case
    using Cons.IH [of c1] Cons.prems p by simp
qed

text \<open>
  C4, amended. When the body has a line of the shape \<open>text_line\<close>, \<open>_parse_response\<close>
  returns the stripped text of a candidate that is not blank and at least as long as
  the text of this line (its string parts appended in order). It returns the stripped
  text of this line when every earlier line yields a shorter text or none, and no later
  line yields a longer one.
\<close>

theorem parse_response_returns_text:
  assumes "split_lines tx = pre @ line # post"
    and "text_line lib line strs"
  shows "\<exists>final_text.
           snd (parse_response lib tx c) = Inr (strip lib final_text)
           \<and> strip lib final_text \<noteq> []
           \<and> length (concat strs) \<le> length final_text
           \<and> ((\<forall>l \<in> set pre. \<forall>c'.
                   length (snd (process_line lib (c', []) l)) < length (concat strs))
               \<and> (\<forall>l \<in> set post. \<forall>c'.
                   length (snd (process_line lib (c', []) l)) \<le> length (concat strs))
              \<longrightarrow> final_text = concat strs)"
proof -
  let ?t = "concat strs"
  have nb: "strip lib ?t \<noteq> []"
    using assms(2) by (simp add: text_line_def)
  have tn: "?t \<noteq> []"
  proof
    assume "?t = []"
    then have "strip lib ?t = []" by (simp only: strip_Nil)
    with nb show False by (rule notE)
  qed
  obtain c1 ft1 where f1: "foldl (process_line lib) (c, []) pre = (c1, ft1)"
    by (cases "foldl (process_line lib) (c, []) pre")
  obtain c2 ft2 where f2: "process_line lib (c1, ft1) line = (c2, ft2)"
    by (cases "process_line lib (c1, ft1) line")
  obtain c3 ft3 where f3: "foldl (process_line lib) (c2, ft2) post = (c3, ft3)"
    by (cases "foldl (process_line lib) (c2, ft2) post")
  have all: "foldl (process_line lib) (c, []) (split_lines tx) = (c3, ft3)"
    using assms(1) f1 f2 f3 by simp
  have ft2: "ft2 = (if length ?t > length ft1 \<or> ft1 = [] then ?t else ft1)"
    using process_line_text_line [OF assms(2), of c1 ft1] f2 by simp
  then have l2: "length ?t \<le> length ft2"
    by (auto split: if_splits)
  have l3: "length ft2 \<le> length ft3"
    using foldl_process_line_mono [of "(c2, ft2)" lib post] f3 by simp
  have ne3: "ft3 \<noteq> []"
    using tn l2 l3 by auto
  have "text_ok lib ft3"
    using foldl_process_line_text_ok [of lib "(c, [])" "split_lines tx"] all
    by (simp add: text_ok_def)
  then have nb3: "strip lib ft3 \<noteq> []"
    using ne3 by (simp add: text_ok_def)
  have res: "snd (parse_response lib tx c) = Inr (strip lib ft3)"
    using all ne3 by (simp add: parse_response_result Let_def)
  have only: "ft3 = ?t"
    if pre: "\<forall>l \<in> set pre. \<forall>c'. length (snd (process_line lib (c', []) l)) < length ?t"
    and post: "\<forall>l \<in> set post. \<forall>c'. length (snd (process_line lib (c', []) l)) \<le> length ?t"
  proof -
    have "length ft1 < length ?t"
      using foldl_shorter [OF pre, of "[]" c] tn f1 by simp
    then have "ft2 = ?t" using ft2 by simp
    then show ?thesis
      using foldl_kept [of post lib ?t c2] post tn f3 by simp
  qed
  show ?thesis
    using res nb3 l2 l3 only by (intro exI [of _ ft3]) auto
qed

lemma reply_text_line: "text_line reply_lib (ascii ''line1'') [ascii '' Hello'', ascii '' world '']"
  unfolding text_line_def
  by (simp add: reply_lib_def table_lib_def wrb_entry_def reply_payload_def skipped_line_def
      strip_def str_isdigit_def startswith_def is_citation_status_def ascii_def Let_def)

theorem parse_response_returns_text_witness:
  "snd (parse_response reply_lib reply_body sample_client) = Inr (ascii ''Hello world'')"
proof -
  have sl: "split_lines reply_body = [ascii '')]}'' @ [39]] @ ascii ''line1'' # []"
    by (simp add: reply_body_def ascii_def)
  have pre: "\<forall>l \<in> set [ascii '')]}'' @ [39]]. \<forall>c'.
               length (snd (process_line reply_lib (c', []) l))
                 < length (concat [ascii '' Hello'', ascii '' world ''])"
    by (simp add: process_line_def skipped_line_def strip_def startswith_def reply_lib_def
        table_lib_def ascii_def Let_def)
  obtain final_text where
    f: "snd (parse_response reply_lib reply_body sample_client) = Inr (strip reply_lib final_text)"
       "final_text = concat [ascii '' Hello'', ascii '' world '']"
    using parse_response_returns_text [OF sl reply_text_line, of sample_client] pre
    by auto
  have "strip reply_lib (concat [ascii '' Hello'', ascii '' world '']) = ascii ''Hello world''"
    by (simp add: strip_def reply_lib_def table_lib_def ascii_def)
  then show ?thesis using f by simp
qed

text \<open>
  C4 as stated fails in three ways: an entry whose sixth element is \<open>[9]\<close> is skipped,
  so its text "Hi" is not returned; of two entries the longer text wins, so the text
  "Hi" of the first line is not returned; and a blank text gives the fallback.
\<close>

theorem parse_response_returns_text_counterexample:
  "json_loads reply_lib (ascii ''line3'')
     = Inr (JArr [JArr [JStr (ascii ''wrb.fr''), JNull, JStr (ascii ''pay2''), JNull, JNull,
                        JArr [JInt 9]]])
   \<and> json_loads reply_lib (ascii ''pay2'')
     = Inr (JArr [JNull, JArr [JStr (ascii ''c_1''), JStr (ascii ''r_1'')], JNull, JNull,
                  JArr [JArr [JStr (ascii ''rc_1''), JArr [JStr (ascii ''Hi'')]]]])
   \<and> snd (parse_response reply_lib (ascii ''line3'') sample_client) = Inr fallback_text
   \<and> json_loads reply_lib (ascii ''line2'')
     = Inr (JArr [JArr [JStr (ascii ''wrb.fr''), JNull, JStr (ascii ''pay2'')]])
   \<and> snd (parse_response reply_lib (ascii ''line2'' @ [10] @ ascii ''line1'') sample_client)
     = Inr (ascii ''Hello world'')
   \<and> json_loads reply_lib (ascii ''line4'')
     = Inr (JArr [JArr [JStr (ascii ''wrb.fr''), JNull, JStr (ascii ''pay4'')]])
   \<and> json_loads reply_lib (ascii ''pay4'')
     = Inr (JArr [JNull, JArr [JStr (ascii ''c_1''), JStr (ascii ''r_1'')], JNull, JNull,
                  JArr [JArr [JStr (ascii ''rc_1''), JArr [JStr (ascii ''  '')]]]])
   \<and> snd (parse_response reply_lib (ascii ''line4'') sample_client) = Inr fallback_text"
  by (simp add: parse_response_def process_line_def try_line_def line_payload_def
      update_context_def candidate_text_def first_candidate_def content_text_def
      accept_text_def save_session_state_def py_or_def
      skipped_line_def strip_def str_isdigit_def startswith_def is_citation_status_def
      reply_lib_def table_lib_def wrb_entry_def reply_payload_def sample_client_def
      fallback_text_def ascii_def Let_def)

section \<open>Properties of chat\<close>










































end
